theory Spec2Isabelle
  imports Complex_Main
begin

section \<open>Exceptions, the event log and the outside world\<close>

text \<open>
  The two modules (\<^verbatim>\<open>crawl.py\<close>, \<^verbatim>\<open>process_lol_data.py\<close>) talk to the Riot API
  through \<^verbatim>\<open>riotwatcher\<close>, read the clock, read and write CSV files and print.
  Every function is modelled with explicit state passing: it takes the event log so far
  and returns a result together with the extended log. A result is \<open>Inl e\<close> when the
  Python raises \<open>e\<close> and \<open>Inr v\<close> when it returns \<open>v\<close>.
\<close>

datatype api_error = ApiError nat
  \<comment> \<open>\<^verbatim>\<open>riotwatcher.ApiError\<close> with \<^verbatim>\<open>e.response.status_code\<close>\<close>

datatype exn =
    AssertionError string
  | TypeError string
  | ValueError string
  | KeyError string
  | UnboundLocalError string
  | FileNotFoundError string
  | OSError string
  | Api api_error

datatype pitem = S string | N int | R real | X exn
  \<comment> \<open>one printed value: a string, an integer, a float, an exception\<close>

datatype event =
    Platform_data string
  | Challenger_by_queue string
  | Grandmaster_by_queue string
  | Masters_by_queue string
  | Summoner_by_id string string
  | Matchlist_by_puuid string string
  | Match_by_id string string bool
  | Versions_for_region string
  | Champions
  | Time_time
  | Read_csv string
  | To_csv string
  | Sample nat
  | Print "pitem list"

type_synonym world = "event list"

text \<open>
  What the outside world answers is a parameter of every function. An answer may depend
  on the moment the call is made: the first argument of each field is the length of the
  event log at the call, so the same request can fail once and succeed later.
\<close>

record ladder_entry =
  le_summonerId :: string
  le_summonerName :: string
  le_leaguePoints :: int

type_synonym profile = "string \<rightharpoonup> string"
  \<comment> \<open>the JSON object \<^verbatim>\<open>watcher.summoner.by_id\<close> returns, read by key\<close>

record participant =
  pa_summonerName :: string
  pa_puuid :: string
  pa_summonerId :: string
  pa_championId :: int
  pa_win :: bool

record slot =
  s_name :: string
  s_puuid :: string
  s_summonerId :: string
  s_champId :: int
  s_win :: bool

record match_row =
  match_id :: string
  slots :: "slot list"

record dir_row =
  d_name :: string
  d_puuid :: string
  d_summonerId :: string
  d_key :: nat

record directory =
  keyed :: bool
  entries :: "dir_row list"

record champion =
  c_key :: int
  c_name :: string

record env =
  platform_data :: "nat \<Rightarrow> string \<Rightarrow> api_error option"
  challenger_by_queue :: "nat \<Rightarrow> string \<Rightarrow> api_error + ladder_entry list"
  grandmaster_by_queue :: "nat \<Rightarrow> string \<Rightarrow> api_error + ladder_entry list"
  masters_by_queue :: "nat \<Rightarrow> string \<Rightarrow> api_error + ladder_entry list"
  summoner_by_id :: "nat \<Rightarrow> string \<Rightarrow> string \<Rightarrow> api_error + profile"
  matchlist_by_puuid :: "nat \<Rightarrow> string \<Rightarrow> string \<Rightarrow> int \<Rightarrow> int \<Rightarrow> api_error + string list"
  match_by_id :: "nat \<Rightarrow> string \<Rightarrow> string \<Rightarrow> api_error + participant list"
  versions_for_region :: "nat \<Rightarrow> string \<Rightarrow> api_error + string"
  champions :: "nat \<Rightarrow> string \<Rightarrow> api_error + champion list"
  time_time :: "nat \<Rightarrow> real"
  read_csv_players :: "nat \<Rightarrow> string \<Rightarrow> exn + (string \<rightharpoonup> string list)"
  read_csv_matches :: "nat \<Rightarrow> string \<Rightarrow> exn + match_row list"
  read_csv_directory :: "nat \<Rightarrow> string \<Rightarrow> exn + directory"
  to_csv :: "nat \<Rightarrow> string \<Rightarrow> exn option"
  shuffle :: "nat \<Rightarrow> nat \<Rightarrow> nat list"

section \<open>Small Python built-ins\<close>

definition py_round :: "real \<Rightarrow> int" where
  \<comment> \<open>\<^verbatim>\<open>round(x)\<close>: to the nearest integer, a tie to the even one\<close>
  "py_round x =
     (let f = \<lfloor>x\<rfloor>; d = x - of_int f
      in if d < 1 / 2 then f else if 1 / 2 < d then f + 1 else if even f then f else f + 1)"

definition digit_char :: "nat \<Rightarrow> char" where
  "digit_char n = ''0123456789'' ! n"

fun str_nat :: "nat \<Rightarrow> string" where
  "str_nat n = (if n < 10 then [digit_char n] else str_nat (n div 10) @ [digit_char (n mod 10)])"

declare str_nat.simps [simp del]

definition str_int :: "int \<Rightarrow> string" where
  \<comment> \<open>\<^verbatim>\<open>str(i)\<close> for an integer\<close>
  "str_int i = (if i < 0 then ''-'' @ str_nat (nat (- i)) else str_nat (nat i))"

definition path_tail :: "string \<Rightarrow> string" where
  \<comment> \<open>\<^verbatim>\<open>os.path.split(p)[1]\<close> (POSIX): what follows the last slash\<close>
  "path_tail p = rev (takeWhile (\<lambda>c. c \<noteq> CHR ''/'') (rev p))"

fun replace_str :: "string \<Rightarrow> string \<Rightarrow> string \<Rightarrow> string" where
  \<comment> \<open>\<^verbatim>\<open>s.replace(old, new)\<close> for a non-empty \<open>old\<close>: every occurrence, left to right\<close>
  "replace_str old new [] = []"
| "replace_str old new (c # s) =
     (if old \<noteq> [] \<and> take (length old) (c # s) = old
      then new @ replace_str old new (drop (length old) (c # s))
      else c # replace_str old new s)"

section \<open>The region and player-count checks\<close>

definition valid_regions :: "string list" where
  \<comment> \<open>\<^verbatim>\<open>['na1', 'euw1', 'eun1' 'kr']\<close>: the last two literals are adjacent, so Python
      joins them into one string\<close>
  "valid_regions = [''na1'', ''euw1'', ''eun1'' @ ''kr'']"

definition region_ok :: "string \<Rightarrow> bool" where
  "region_ok reg = (reg \<in> set valid_regions)"

section \<open>Ladder loader: \<^verbatim>\<open>load_players\<close>\<close>

record player_row =
  pl_puuid :: string
  pl_accountId :: string
  pl_summonerId :: string
  pl_summonerName :: string
  pl_leaguePoints :: int

record players_df =
  pl_rows :: "player_row list"
  pl_file_name :: string

record lp_state =
  lp_summoner_info :: "profile option"
  lp_j :: int
  lp_in_order_players :: "player_row list"

text \<open>
  \<open>lp_summoner_info\<close> is the local name \<^verbatim>\<open>summoner_info\<close>: \<open>None\<close> while nothing has
  been assigned to it. A printed line is the list of the pieces it is built from.
\<close>

definition check_api_key :: "env \<Rightarrow> string \<Rightarrow> world \<Rightarrow> (exn + unit) \<times> world" where
  \<comment> \<open>lines 29-37 and 124-132 of \<^verbatim>\<open>crawl.py\<close>\<close>
  "check_api_key E reg w =
     (case platform_data E (length w) reg of
        None \<Rightarrow> (Inr (), w @ [Platform_data reg])
      | Some (ApiError code) \<Rightarrow>
          (if code = 401
           then (Inl (Api (ApiError code)), w @ [Platform_data reg, Print [S ''Invalid API key.'']])
           else (Inl (Api (ApiError code)), w @ [Platform_data reg])))"

definition fetch_ladder :: "env \<Rightarrow> string \<Rightarrow> world \<Rightarrow> (exn + ladder_entry list) \<times> world" where
  \<comment> \<open>lines 41-43 and the concatenation of line 48; an \<^verbatim>\<open>ApiError\<close> is not caught here\<close>
  "fetch_ladder E reg w =
     (case challenger_by_queue E (length w) reg of
        Inl e \<Rightarrow> (Inl (Api e), w @ [Challenger_by_queue reg])
      | Inr chal \<Rightarrow>
          (case grandmaster_by_queue E (Suc (length w)) reg of
             Inl e \<Rightarrow> (Inl (Api e), w @ [Challenger_by_queue reg, Grandmaster_by_queue reg])
           | Inr gm \<Rightarrow>
               (case masters_by_queue E (Suc (Suc (length w))) reg of
                  Inl e \<Rightarrow>
                    (Inl (Api e),
                     w @ [Challenger_by_queue reg, Grandmaster_by_queue reg, Masters_by_queue reg])
                | Inr m \<Rightarrow>
                    (Inr (chal @ gm @ m),
                     w @ [Challenger_by_queue reg, Grandmaster_by_queue reg, Masters_by_queue reg]))))"

definition resolve_one ::
  "env \<Rightarrow> string \<Rightarrow> ladder_entry \<Rightarrow> lp_state \<Rightarrow> world \<Rightarrow> (exn + lp_state) \<times> world" where
  \<comment> \<open>the \<^verbatim>\<open>try/except/else\<close> of lines 51-60\<close>
  "resolve_one E reg summoner st w =
     (case summoner_by_id E (length w) reg (le_summonerId summoner) of
        Inl e \<Rightarrow>
          (case lp_summoner_info st of
             None \<Rightarrow>
               (Inl (UnboundLocalError ''summoner_info''),
                w @ [Summoner_by_id reg (le_summonerId summoner)])
           | Some info \<Rightarrow>
               (case info ''summonerName'' of
                  None \<Rightarrow>
                    (Inl (KeyError ''summonerName''),
                     w @ [Summoner_by_id reg (le_summonerId summoner)])
                | Some nm \<Rightarrow>
                    (Inr (st\<lparr>lp_j := lp_j st + lp_j st\<rparr>),
                     w @ [Summoner_by_id reg (le_summonerId summoner),
                          Print [S ''An exception as occurred at when processing '', S nm, S '':''],
                          Print [X (Api e)]])))
      | Inr info \<Rightarrow>
          (case info ''puuid'' of
             None \<Rightarrow> (Inl (KeyError ''puuid''), w @ [Summoner_by_id reg (le_summonerId summoner)])
           | Some pu \<Rightarrow>
               (case info ''accountId'' of
                  None \<Rightarrow>
                    (Inl (KeyError ''accountId''),
                     w @ [Summoner_by_id reg (le_summonerId summoner)])
                | Some acc \<Rightarrow>
                    (Inr (st\<lparr>lp_summoner_info := Some info,
                              lp_in_order_players := lp_in_order_players st @
                                [\<lparr>pl_puuid = pu, pl_accountId = acc,
                                  pl_summonerId = le_summonerId summoner,
                                  pl_summonerName = le_summonerName summoner,
                                  pl_leaguePoints = le_leaguePoints summoner\<rparr>]\<rparr>),
                     w @ [Summoner_by_id reg (le_summonerId summoner)]))))"

definition progress :: "int \<Rightarrow> world \<Rightarrow> world" where
  \<comment> \<open>lines 62-63\<close>
  "progress n w = (if n mod 100 = 0 then w @ [Print [N n, S ''players processed.'']] else w)"

fun resolve_players ::
  "env \<Rightarrow> string \<Rightarrow> (ladder_entry \<times> int) list \<Rightarrow> lp_state \<Rightarrow> world \<Rightarrow> (exn + lp_state) \<times> world" where
  \<comment> \<open>the loop of lines 48-63 over the zipped pairs\<close>
  "resolve_players E reg [] st w = (Inr st, w)"
| "resolve_players E reg ((summoner, n) # rest) st w =
     (case resolve_one E reg summoner st w of
        (Inl e, w1) \<Rightarrow> (Inl e, w1)
      | (Inr st1, w1) \<Rightarrow> resolve_players E reg rest st1 (progress n w1))"

definition sorted_reverse :: "player_row list \<Rightarrow> player_row list" where
  \<comment> \<open>line 65: \<^verbatim>\<open>sorted(..., key = lambda kv: kv[4], reverse = True)\<close>, a stable sort\<close>
  "sorted_reverse rows = sort_key (\<lambda>r. - pl_leaguePoints r) rows"

definition sort_values_descending :: "player_row list \<Rightarrow> player_row list" where
  \<comment> \<open>line 68: \<^verbatim>\<open>df.sort_values('leaguePoints', ascending = False)\<close>; pandas does not
      promise the order of rows with equal points, here they keep their order\<close>
  "sort_values_descending rows = sort_key (\<lambda>r. - pl_leaguePoints r) rows"

definition save_players ::
  "env \<Rightarrow> string \<Rightarrow> string option \<Rightarrow> player_row list \<Rightarrow> world \<Rightarrow> (exn + players_df) \<times> world" where
  \<comment> \<open>lines 70-82\<close>
  "save_players E reg save_path rows w =
     (let curr_date = py_round (time_time E (length w));
          df = \<lparr>pl_rows = rows,
                pl_file_name = ''raw_player_data_'' @ reg @ ''_'' @ str_int curr_date @ ''.csv''\<rparr>
      in case save_path of
           None \<Rightarrow> (Inr df, w @ [Time_time])
         | Some sp \<Rightarrow>
             (case to_csv E (Suc (length w)) (sp @ pl_file_name df) of
                None \<Rightarrow> (Inr df, w @ [Time_time, To_csv (sp @ pl_file_name df)])
              | Some e \<Rightarrow>
                  (Inr df,
                   w @ [Time_time, To_csv (sp @ pl_file_name df), Print [X e],
                        Print [S ''Failed to save player data to .csv file.'']])))"

definition load_players ::
  "env \<Rightarrow> string \<Rightarrow> int \<Rightarrow> string option \<Rightarrow> world \<Rightarrow> (exn + players_df) \<times> world" where
  "load_players E reg player_count save_path w =
     (if \<not> region_ok reg then (Inl (AssertionError ''Invalid region.''), w)
      else if \<not> 0 < player_count
      then (Inl (AssertionError ''Invalid player count (must be >0).''), w)
      else
        (case check_api_key E reg w of
           (Inl e, w1) \<Rightarrow> (Inl e, w1)
         | (Inr u, w1) \<Rightarrow>
             (case fetch_ladder E reg w1 of
                (Inl e, w2) \<Rightarrow> (Inl e, w2)
              | (Inr ladder, w2) \<Rightarrow>
                  (case resolve_players E reg (zip ladder [1..player_count])
                          \<lparr>lp_summoner_info = None, lp_j = 0, lp_in_order_players = []\<rparr> w2 of
                     (Inl e, w3) \<Rightarrow> (Inl e, w3)
                   | (Inr st, w3) \<Rightarrow>
                       save_players E reg save_path
                         (sort_values_descending (sorted_reverse (lp_in_order_players st))) w3))))"

section \<open>Match crawler: \<^verbatim>\<open>load_matches_from_player\<close> and \<^verbatim>\<open>load_matches\<close>\<close>

type_synonym match_dict = "(string \<times> slot list) list"
  \<comment> \<open>a Python dict in insertion order: \<^verbatim>\<open>{match_id: serialised_match_info}\<close>\<close>

fun dict_set :: "('k \<times> 'v) list \<Rightarrow> 'k \<Rightarrow> 'v \<Rightarrow> ('k \<times> 'v) list" where
  \<comment> \<open>\<^verbatim>\<open>d[k] = v\<close>: a known key keeps its place, a new key goes last\<close>
  "dict_set [] k v = [(k, v)]"
| "dict_set ((k', v') # d) k v = (if k' = k then (k, v) # d else (k', v') # dict_set d k v)"

definition dict_merge :: "('k \<times> 'v) list \<Rightarrow> ('k \<times> 'v) list \<Rightarrow> ('k \<times> 'v) list" where
  \<comment> \<open>\<^verbatim>\<open>a | b\<close>\<close>
  "dict_merge a b = foldl (\<lambda>d kv. dict_set d (fst kv) (snd kv)) a b"

definition serialise :: "participant list \<Rightarrow> slot list" where
  \<comment> \<open>lines 211-222: the keys \<^verbatim>\<open>p{i}_name\<close>, ... of participant \<open>i\<close> are the fields of the
      \<open>i\<close>-th slot\<close>
  "serialise ps =
     map (\<lambda>p. \<lparr>s_name = pa_summonerName p, s_puuid = pa_puuid p,
                s_summonerId = pa_summonerId p, s_champId = pa_championId p,
                s_win = pa_win p\<rparr>) ps"

fun fetch_matches ::
  "env \<Rightarrow> string \<Rightarrow> string list \<Rightarrow> match_dict \<Rightarrow> string list \<Rightarrow> world \<Rightarrow>
     bool \<times> match_dict \<times> string list \<times> world" where
  \<comment> \<open>the loop of lines 200-225; the first component tells whether it ended by \<^verbatim>\<open>break\<close>\<close>
  "fetch_matches E reg [] pmd searched w = (False, pmd, searched, w)"
| "fetch_matches E reg (mid # rest) pmd searched w =
     (if mid \<notin> set searched
      then
        (case match_by_id E (length w) reg mid of
           Inl e \<Rightarrow>
             (True, pmd, searched,
              w @ [Match_by_id reg mid False, Print [X (Api e)],
                   Print [S ''There was an issue finding the match information for match_id = '',
                          S mid, S '':'']])
         | Inr match_info \<Rightarrow>
             fetch_matches E reg rest (dict_set pmd mid (serialise match_info))
               (searched @ [mid]) (w @ [Match_by_id reg mid True]))
      else fetch_matches E reg rest pmd searched w)"

definition load_matches_from_player ::
  "env \<Rightarrow> string \<Rightarrow> int \<Rightarrow> int \<Rightarrow> string \<Rightarrow> string list \<Rightarrow> world \<Rightarrow>
     (match_dict \<times> string list) option \<times> world" where
  \<comment> \<open>\<open>None\<close> is the bare \<^verbatim>\<open>return\<close> of line 196\<close>
  "load_matches_from_player E puuid start_date end_date reg searched w =
     (case matchlist_by_puuid E (length w) reg puuid start_date end_date of
        Inl e \<Rightarrow>
          (None,
           w @ [Matchlist_by_puuid reg puuid, Print [X (Api e)],
                Print [S ''There was an issue finding the matches of player'', S puuid, S '':'']])
      | Inr match_list \<Rightarrow>
          (case fetch_matches E reg match_list [] searched (w @ [Matchlist_by_puuid reg puuid]) of
             (broke, player_match_data, searched', w') \<Rightarrow>
               (Some (player_match_data, searched'), w')))"

record crawl_state =
  cs_searched :: "string list"
  cs_match_data :: match_dict
  cs_prev :: nat
  cs_i :: nat

definition player_done ::
  "env \<Rightarrow> int \<Rightarrow> real \<Rightarrow> nat \<Rightarrow> crawl_state \<Rightarrow> world \<Rightarrow> bool \<times> crawl_state \<times> world" where
  \<comment> \<open>lines 147-156; the first component tells whether the time limit was exceeded\<close>
  "player_done E curr_time time_limit n_players st w =
     (let reported = (100 < int (length (cs_searched st)) - int (cs_prev st));
          w1 = (if reported
                then w @ [Print [N (int (length (cs_searched st))), S ''matches searched.'']]
                else w);
          st1 = st\<lparr>cs_prev := (if reported then length (cs_searched st) else cs_prev st),
                   cs_i := cs_i st + 1\<rparr>
      in if time_limit * 60 ^ 2 \<le> time_time E (length w1) - of_int curr_time
         then (True, st1,
               w1 @ [Time_time,
                     Print [S ''Time limit of '', R time_limit, S '' hours exceeded.''],
                     Print [N (int (cs_i st1)), S ''out of'', N (int n_players),
                            S ''player's match history processed.'']])
         else (False, st1, w1 @ [Time_time]))"

fun crawl_players ::
  "env \<Rightarrow> string \<Rightarrow> int \<Rightarrow> int \<Rightarrow> real \<Rightarrow> nat \<Rightarrow> string list \<Rightarrow> crawl_state \<Rightarrow> world \<Rightarrow>
     (exn + bool \<times> crawl_state) \<times> world" where
  \<comment> \<open>the loop of lines 142-156; unpacking \<^verbatim>\<open>None\<close> at line 144 raises \<^verbatim>\<open>TypeError\<close>\<close>
  "crawl_players E reg date curr_time time_limit n_players [] st w = (Inr (False, st), w)"
| "crawl_players E reg date curr_time time_limit n_players (puuid # rest) st w =
     (case load_matches_from_player E puuid date curr_time reg (cs_searched st) w of
        (None, w1) \<Rightarrow> (Inl (TypeError ''cannot unpack non-iterable NoneType object''), w1)
      | (Some (player_match_history, searched'), w1) \<Rightarrow>
          (case player_done E curr_time time_limit n_players
                  (st\<lparr>cs_searched := searched',
                      cs_match_data := dict_merge (cs_match_data st) player_match_history\<rparr>) w1 of
             (True, st2, w2) \<Rightarrow> (Inr (True, st2), w2)
           | (False, st2, w2) \<Rightarrow> crawl_players E reg date curr_time time_limit n_players rest st2 w2))"

definition puuid_column ::
  "(string \<rightharpoonup> string list) \<Rightarrow> world \<Rightarrow> (exn + string list) \<times> world" where
  \<comment> \<open>\<^verbatim>\<open>.loc[:, 'puuid']\<close> inside \<^verbatim>\<open>try/except KeyError\<close>\<close>
  "puuid_column tbl w =
     (case tbl ''puuid'' of
        None \<Rightarrow> (Inl (KeyError ''puuid''), w @ [Print [S ''Data must have column with key 'puuid'.'']])
      | Some col \<Rightarrow> (Inr col, w))"

definition load_puuids ::
  "env \<Rightarrow> (string \<rightharpoonup> string list) option \<Rightarrow> string option \<Rightarrow> world \<Rightarrow>
     (exn + string list) \<times> world" where
  \<comment> \<open>lines 107-121\<close>
  "load_puuids E players load_path w =
     (case players of
        None \<Rightarrow>
          (case load_path of
             None \<Rightarrow> (Inl (ValueError ''Specify at least one of players or load_data''), w)
           | Some lp \<Rightarrow>
               (case read_csv_players E (length w) lp of
                  Inl e \<Rightarrow>
                    (Inl e,
                     (case e of
                        KeyError k \<Rightarrow>
                          w @ [Read_csv lp, Print [S ''Data must have column with key 'puuid'.'']]
                      | _ \<Rightarrow> w @ [Read_csv lp]))
                | Inr tbl \<Rightarrow> puuid_column tbl (w @ [Read_csv lp])))
      | Some tbl \<Rightarrow> puuid_column tbl w)"

record matches_df =
  m_rows :: "match_row list"
  m_file_name :: string

definition save_matches ::
  "env \<Rightarrow> string \<Rightarrow> int \<Rightarrow> int \<Rightarrow> string option \<Rightarrow> match_dict \<Rightarrow> world \<Rightarrow>
     (exn + matches_df) \<times> world" where
  \<comment> \<open>lines 158-173\<close>
  "save_matches E reg date curr_time save_path md w =
     (let df = \<lparr>m_rows = map (\<lambda>kv. \<lparr>match_id = fst kv, slots = snd kv\<rparr>) md,
                m_file_name = ''raw_match_data_'' @ reg @ ''_'' @ str_int date @ ''_'' @
                              str_int curr_time @ ''.csv''\<rparr>
      in case save_path of
           None \<Rightarrow> (Inr df, w)
         | Some sp \<Rightarrow>
             (case to_csv E (length w) (sp @ m_file_name df) of
                None \<Rightarrow> (Inr df, w @ [To_csv (sp @ m_file_name df)])
              | Some e \<Rightarrow>
                  (Inr df,
                   w @ [To_csv (sp @ m_file_name df), Print [X e],
                        Print [S ''Failed to save match data to .csv file.'']])))"

definition crawl_start :: crawl_state where
  \<comment> \<open>lines 136-140\<close>
  "crawl_start = \<lparr>cs_searched = [], cs_match_data = [], cs_prev = 0, cs_i = 0\<rparr>"

definition load_matches ::
  "env \<Rightarrow> string \<Rightarrow> int \<Rightarrow> (string \<rightharpoonup> string list) option \<Rightarrow> string option \<Rightarrow> string option \<Rightarrow>
     real option \<Rightarrow> world \<Rightarrow> (exn + matches_df) \<times> world" where
  "load_matches E reg date players load_path save_path time_limit w =
     (if \<not> region_ok reg then (Inl (AssertionError ''Invalid region''), w)
      else
        (case time_limit of
           None \<Rightarrow> (Inl (TypeError ''> not supported between NoneType and int''), w)
         | Some limit \<Rightarrow>
             (if \<not> 0 < limit then (Inl (AssertionError ''Invalid time limit (must be >0).''), w)
              else if \<not> of_int date < time_time E (length w)
              then (Inl (AssertionError ''Invalid date (must be < current Epoch minute time)''),
                    w @ [Time_time])
              else
                (case load_puuids E players load_path (w @ [Time_time]) of
                   (Inl e, w2) \<Rightarrow> (Inl e, w2)
                 | (Inr player_puuids, w2) \<Rightarrow>
                     (case check_api_key E reg w2 of
                        (Inl e, w3) \<Rightarrow> (Inl e, w3)
                      | (Inr u, w3) \<Rightarrow>
                          (case crawl_players E reg date (py_round (time_time E (length w3) - 1)) limit
                                  (length player_puuids) player_puuids crawl_start
                                  (w3 @ [Time_time]) of
                             (Inl e, w5) \<Rightarrow> (Inl e, w5)
                           | (Inr (stopped, st), w5) \<Rightarrow>
                               save_matches E reg date (py_round (time_time E (length w3) - 1))
                                 save_path (cs_match_data st) w5))))))"

section \<open>Reading the event log\<close>

fun fetched_ids :: "event list \<Rightarrow> string list" where
  \<comment> \<open>the match ids whose match-detail call succeeded, in the order of the calls\<close>
  "fetched_ids [] = []"
| "fetched_ids (Match_by_id reg mid ok # es) =
     (if ok then mid # fetched_ids es else fetched_ids es)"
| "fetched_ids (e # es) = fetched_ids es"

fun no_refetch :: "string list \<Rightarrow> event list \<Rightarrow> bool" where
  \<comment> \<open>no match-detail call of the log, failed or not, asks for an id of \<open>seen\<close> or for an
      id that an earlier call of the log has fetched\<close>
  "no_refetch seen [] = True"
| "no_refetch seen (Match_by_id reg mid ok # es) =
     (mid \<notin> set seen \<and> no_refetch (if ok then seen @ [mid] else seen) es)"
| "no_refetch seen (e # es) = no_refetch seen es"

fun match_calls :: "event list \<Rightarrow> string list" where
  \<comment> \<open>the match ids of all match-detail calls, failed or not\<close>
  "match_calls [] = []"
| "match_calls (Match_by_id reg mid ok # es) = mid # match_calls es"
| "match_calls (e # es) = match_calls es"


section \<open>Table builder: \<^verbatim>\<open>process_lol_data.py\<close>\<close>

text \<open>
  A raw match table, as \<^verbatim>\<open>pd.read_csv\<close> gives it, is a list of rows; a row holds the
  \<^verbatim>\<open>match_id\<close> and the slots \<^verbatim>\<open>p1\<close>, \<^verbatim>\<open>p2\<close>, ... with their five values. The table
  has the columns of slot \<open>k\<close> when every row has at least \<open>k\<close> slots; asking for a column
  it does not have raises \<^verbatim>\<open>KeyError\<close>. Cells are strings as read: what pandas makes of
  empty cells (NaN) and of column types is not modelled.
\<close>

type_synonym triple = "string \<times> string \<times> string"
  \<comment> \<open>a row of the columns \<^verbatim>\<open>name\<close>, \<^verbatim>\<open>puuid\<close>, \<^verbatim>\<open>summonerId\<close>\<close>

definition has_slot :: "nat \<Rightarrow> match_row list \<Rightarrow> bool" where
  "has_slot k tbl = list_all (\<lambda>r. k \<le> length (slots r)) tbl"

definition slot_names :: "nat \<Rightarrow> match_row list \<Rightarrow> triple list" where
  \<comment> \<open>\<^verbatim>\<open>match_data.loc[:, ['p{k}_name', 'p{k}_puuid', 'p{k}_summonerId']]\<close>, renamed\<close>
  "slot_names k tbl =
     map (\<lambda>r. (s_name (slots r ! (k - 1)), s_puuid (slots r ! (k - 1)),
               s_summonerId (slots r ! (k - 1)))) tbl"

definition drop_duplicates :: "'a list \<Rightarrow> 'a list" where
  \<comment> \<open>\<^verbatim>\<open>df.drop_duplicates(ignore_index = True)\<close>: the first of equal rows is kept\<close>
  "drop_duplicates xs = rev (remdups (rev xs))"

fun combine_slots ::
  "nat list \<Rightarrow> match_row list \<Rightarrow> triple list \<Rightarrow> string \<Rightarrow> world \<Rightarrow> (exn + triple list) \<times> world" where
  \<comment> \<open>the loop of lines 36-51 over the slot numbers\<close>
  "combine_slots [] tbl combined load_path w = (Inr combined, w)"
| "combine_slots (k # ks) tbl combined load_path w =
     (if \<not> has_slot k tbl
      then (Inl (KeyError (''p'' @ str_int (int k) @ ''_name'')),
            w @ [Print [S ''File at '', S load_path, S '' has invalid format'']])
      else combine_slots ks tbl (drop_duplicates (combined @ slot_names k tbl)) load_path w)"

definition make_directory :: "bool \<Rightarrow> triple list \<Rightarrow> directory" where
  \<comment> \<open>lines 57-59: the key of a row is its position, when keys are asked for\<close>
  "make_directory include_key ts =
     \<lparr>keyed = include_key,
      entries = map (\<lambda>kt. \<lparr>d_name = fst (snd kt), d_puuid = fst (snd (snd kt)),
                            d_summonerId = snd (snd (snd kt)),
                            d_key = (if include_key then fst kt else 0)\<rparr>)
                    (enumerate 0 ts)\<rparr>"

definition unknown_row :: triple where
  \<comment> \<open>line 54\<close>
  "unknown_row = (''<U>'', ''0'', ''0'')"

definition process_player_data_from_matches ::
  "env \<Rightarrow> string \<Rightarrow> string option \<Rightarrow> bool \<Rightarrow> world \<Rightarrow>
     (exn + directory \<times> string option) \<times> world" where
  "process_player_data_from_matches E load_path save_path include_key w =
     (case read_csv_matches E (length w) load_path of
        Inl e \<Rightarrow> (Inl e, w @ [Read_csv load_path])
      | Inr match_data \<Rightarrow>
          (if \<not> has_slot 1 match_data
           then (Inl (KeyError ''p1_name''),
                 w @ [Read_csv load_path,
                      Print [S ''File at '', S load_path, S '' has invalid format'']])
           else
             (case combine_slots [2..<11] match_data (slot_names 1 match_data) load_path
                     (w @ [Read_csv load_path]) of
                (Inl e, w2) \<Rightarrow> (Inl e, w2)
              | (Inr combined, w2) \<Rightarrow>
                  (case save_path of
                     None \<Rightarrow> (Inr (make_directory include_key (unknown_row # combined), None), w2)
                   | Some sp \<Rightarrow>
                       (case to_csv E (length w2)
                               (sp @ replace_str ''raw_match_data'' ''processed_player_data''
                                       (path_tail load_path)) of
                          Some e \<Rightarrow>
                            (Inl e,
                             w2 @ [To_csv (sp @ replace_str ''raw_match_data''
                                                   ''processed_player_data'' (path_tail load_path)),
                                   Print [S ''Failed to save processed player data to .csv file.'']])
                        | None \<Rightarrow>
                            (Inr (make_directory include_key (unknown_row # combined),
                                  Some (replace_str ''raw_match_data'' ''processed_player_data''
                                          (path_tail load_path))),
                             w2 @ [To_csv (sp @ replace_str ''raw_match_data''
                                                   ''processed_player_data''
                                                   (path_tail load_path))]))))))"

text \<open>
  The rows \<open>process_match_data\<close> works on: the index label of the row, the \<^verbatim>\<open>match_id\<close>
  and, for every slot, the columns that remain at the end (\<^verbatim>\<open>name\<close>, \<^verbatim>\<open>key\<close>,
  \<^verbatim>\<open>champId\<close>, \<^verbatim>\<open>champName\<close>, \<^verbatim>\<open>win\<close>). A key or a champion name that is \<open>None\<close> is
  a missing value (NaN).
\<close>

record pslot =
  ps_name :: string
  ps_key :: "nat option"
  ps_champId :: int
  ps_champName :: "string option"
  ps_win :: bool

record prow =
  p_index :: nat
  p_match_id :: string
  p_slots :: "pslot list"

definition start_rows :: "match_row list \<Rightarrow> prow list" where
  "start_rows tbl =
     map (\<lambda>ir. \<lparr>p_index = fst ir, p_match_id = match_id (snd ir),
                 p_slots = map (\<lambda>s. \<lparr>ps_name = s_name s, ps_key = None, ps_champId = s_champId s,
                                       ps_champName = None, ps_win = s_win s\<rparr>) (slots (snd ir))\<rparr>)
         (enumerate 0 tbl)"

definition sample_index :: "env \<Rightarrow> real \<Rightarrow> nat \<Rightarrow> prow list \<Rightarrow> nat list" where
  \<comment> \<open>line 119, \<^verbatim>\<open>match_data.sample(frac = noise_rate).index\<close>: pandas draws
      \<^verbatim>\<open>round(frac * len)\<close> positions without replacement; \<open>shuffle\<close> is the random order\<close>
  "sample_index E rate k rows =
     map (\<lambda>pos. p_index (rows ! pos))
       (filter (\<lambda>pos. pos < length rows)
          (take (nat (py_round (rate * of_nat (length rows)))) (shuffle E k (length rows))))"

definition set_name :: "nat \<Rightarrow> string \<Rightarrow> prow \<Rightarrow> prow" where
  "set_name k nm row =
     row\<lparr>p_slots := (p_slots row)[k - 1 := (p_slots row ! (k - 1))\<lparr>ps_name := nm\<rparr>]\<rparr>"

definition set_key :: "nat \<Rightarrow> nat option \<Rightarrow> prow \<Rightarrow> prow" where
  "set_key k key row =
     row\<lparr>p_slots := (p_slots row)[k - 1 := (p_slots row ! (k - 1))\<lparr>ps_key := key\<rparr>]\<rparr>"

definition set_champName :: "(int \<rightharpoonup> string) \<Rightarrow> nat \<Rightarrow> prow \<Rightarrow> prow" where
  \<comment> \<open>line 127\<close>
  "set_champName champ_dict k row =
     row\<lparr>p_slots := (p_slots row)[k - 1 :=
            (p_slots row ! (k - 1))\<lparr>ps_champName :=
               champ_dict (ps_champId (p_slots row ! (k - 1)))\<rparr>]\<rparr>"

definition add_noise :: "env \<Rightarrow> real \<Rightarrow> nat \<Rightarrow> prow list \<Rightarrow> prow list" where
  \<comment> \<open>lines 119-120: every row whose index label was drawn gets the name \<^verbatim>\<open><U>\<close>\<close>
  "add_noise E rate k rows =
     map (\<lambda>row. if p_index row \<in> set (sample_index E rate k rows)
                then set_name k ''<U>'' row else row) rows"

definition join_row :: "dir_row list \<Rightarrow> nat \<Rightarrow> prow \<Rightarrow> prow list" where
  \<comment> \<open>the left join of one row: one copy for every directory row with the name of slot
      \<open>k\<close>, and the row itself with a missing key when there is none\<close>
  "join_row ents k row =
     (let keys = map d_key (filter (\<lambda>d. d_name d = ps_name (p_slots row ! (k - 1))) ents)
      in if keys = [] then [set_key k None row]
         else map (\<lambda>key. set_key k (Some key) row) keys)"

definition join_slot :: "dir_row list \<Rightarrow> nat \<Rightarrow> prow list \<Rightarrow> prow list" where
  \<comment> \<open>lines 123-124: \<^verbatim>\<open>match_data.join(player_data.set_index('name'), on = 'p{k}_name')\<close>\<close>
  "join_slot ents k rows = concat (map (join_row ents k) rows)"

fun process_slots ::
  "env \<Rightarrow> dir_row list \<Rightarrow> (int \<rightharpoonup> string) \<Rightarrow> real \<Rightarrow> nat list \<Rightarrow> prow list \<Rightarrow> exn + prow list" where
  \<comment> \<open>the loop of lines 112-127 over the slot numbers\<close>
  "process_slots E ents champ_dict noise_rate [] rows = Inr rows"
| "process_slots E ents champ_dict noise_rate (k # ks) rows =
     (if \<not> list_all (\<lambda>row. k \<le> length (p_slots row)) rows
      then Inl (KeyError (''p'' @ str_int (int k) @ ''_puuid''))
      else process_slots E ents champ_dict noise_rate ks
             (map (set_champName champ_dict k)
                (join_slot ents k (add_noise E noise_rate k rows))))"

definition read_tables ::
  "env \<Rightarrow> string \<Rightarrow> string \<Rightarrow> world \<Rightarrow> (exn + match_row list \<times> directory) \<times> world" where
  \<comment> \<open>lines 89-95; only \<^verbatim>\<open>FileNotFoundError\<close> is announced before it is raised again\<close>
  "read_tables E match_load_path player_load_path w =
     (case read_csv_matches E (length w) match_load_path of
        Inl e \<Rightarrow>
          (Inl e,
           (case e of
              FileNotFoundError p \<Rightarrow> w @ [Read_csv match_load_path, Print [S ''Invalid load paths'']]
            | _ \<Rightarrow> w @ [Read_csv match_load_path]))
      | Inr match_data \<Rightarrow>
          (case read_csv_directory E (Suc (length w)) player_load_path of
             Inl e \<Rightarrow>
               (Inl e,
                (case e of
                   FileNotFoundError p \<Rightarrow>
                     w @ [Read_csv match_load_path, Read_csv player_load_path,
                          Print [S ''Invalid load paths'']]
                 | _ \<Rightarrow> w @ [Read_csv match_load_path, Read_csv player_load_path]))
           | Inr player_data \<Rightarrow>
               (Inr (match_data, player_data),
                w @ [Read_csv match_load_path, Read_csv player_load_path])))"

definition load_champions :: "env \<Rightarrow> world \<Rightarrow> (exn + champion list) \<times> world" where
  \<comment> \<open>lines 98-107\<close>
  "load_champions E w =
     (case versions_for_region E (length w) ''na1'' of
        Inl (ApiError code) \<Rightarrow>
          (Inl (Api (ApiError code)),
           (if code = 401 then w @ [Versions_for_region ''na1'', Print [S ''Invalid API key.'']]
            else w @ [Versions_for_region ''na1'']))
      | Inr latest_version \<Rightarrow>
          (case champions E (Suc (length w)) latest_version of
             Inl (ApiError code) \<Rightarrow>
               (Inl (Api (ApiError code)),
                (if code = 401
                 then w @ [Versions_for_region ''na1'', Champions, Print [S ''Invalid API key.'']]
                 else w @ [Versions_for_region ''na1'', Champions]))
           | Inr static_champ_list \<Rightarrow>
               (Inr static_champ_list, w @ [Versions_for_region ''na1'', Champions])))"

definition champ_dict_of :: "champion list \<Rightarrow> (int \<rightharpoonup> string)" where
  \<comment> \<open>lines 109-110: a later entry with the same key wins\<close>
  "champ_dict_of cs = fold (\<lambda>c m. m(c_key c \<mapsto> c_name c)) cs Map.empty"

definition process_match_data ::
  "env \<Rightarrow> string \<Rightarrow> string \<Rightarrow> string option \<Rightarrow> real \<Rightarrow> world \<Rightarrow>
     (exn + prow list \<times> string option) \<times> world" where
  "process_match_data E match_load_path player_load_path save_path noise_rate w =
     (if \<not> (0 \<le> noise_rate \<and> noise_rate \<le> 1)
      then (Inl (AssertionError ''Invalid noise_rate (must be in-between 0 and 1).''), w)
      else
        (case read_tables E match_load_path player_load_path w of
           (Inl e, w1) \<Rightarrow> (Inl e, w1)
         | (Inr (match_data, player_data), w1) \<Rightarrow>
             (case load_champions E w1 of
                (Inl e, w2) \<Rightarrow> (Inl e, w2)
              | (Inr static_champ_list, w2) \<Rightarrow>
                  (case process_slots E (entries player_data) (champ_dict_of static_champ_list)
                          noise_rate [1..<11] (start_rows match_data) of
                     Inl e \<Rightarrow> (Inl e, w2)
                   | Inr rows \<Rightarrow>
                       (if \<not> keyed player_data then (Inl (KeyError ''p1_key''), w2)
                        else
                          (case save_path of
                             None \<Rightarrow> (Inr (rows, None), w2)
                           | Some sp \<Rightarrow>
                               (case to_csv E (length w2)
                                       (sp @ replace_str ''raw_match_data'' ''processed_match_data''
                                               (path_tail match_load_path)) of
                                  Some e \<Rightarrow>
                                    (Inl e,
                                     w2 @ [To_csv (sp @ replace_str ''raw_match_data''
                                                     ''processed_match_data''
                                                     (path_tail match_load_path)),
                                           Print [S ''Failed to save processed match data to .csv file.'']])
                                | None \<Rightarrow>
                                    (Inr (rows,
                                          Some (replace_str ''raw_match_data''
                                                  ''processed_match_data''
                                                  (path_tail match_load_path))),
                                     w2 @ [To_csv (sp @ replace_str ''raw_match_data''
                                                     ''processed_match_data''
                                                     (path_tail match_load_path))]))))))))"



section \<open>Concrete worlds\<close>

text \<open>
  Worlds on which the functions are run below. In \<open>quiet_env\<close> every call succeeds, every
  listing is empty and the clock shows 1000 plus the number of events so far.
\<close>

definition quiet_env :: env where
  "quiet_env =
     \<lparr>platform_data = (\<lambda>t reg. None),
      challenger_by_queue = (\<lambda>t reg. Inr []),
      grandmaster_by_queue = (\<lambda>t reg. Inr []),
      masters_by_queue = (\<lambda>t reg. Inr []),
      summoner_by_id =
        (\<lambda>t reg sid. Inr [''puuid'' \<mapsto> ''pu-'' @ sid, ''accountId'' \<mapsto> ''acc-'' @ sid]),
      matchlist_by_puuid = (\<lambda>t reg puuid start_time end_time. Inr []),
      match_by_id = (\<lambda>t reg mid. Inr []),
      versions_for_region = (\<lambda>t reg. Inr ''14.1.1''),
      champions = (\<lambda>t version. Inr []),
      time_time = (\<lambda>t. 1000 + of_nat t),
      read_csv_players = (\<lambda>t path. Inl (FileNotFoundError path)),
      read_csv_matches = (\<lambda>t path. Inl (FileNotFoundError path)),
      read_csv_directory = (\<lambda>t path. Inl (FileNotFoundError path)),
      to_csv = (\<lambda>t path. None),
      shuffle = (\<lambda>slot_no len. [0..<len])\<rparr>"

definition ladder_env :: env where
  \<comment> \<open>a challenger tier of three entries with 50, 200 and 100 league points\<close>
  "ladder_env = quiet_env
     \<lparr>challenger_by_queue := (\<lambda>t reg.
        Inr [\<lparr>le_summonerId = ''a'', le_summonerName = ''Ann'', le_leaguePoints = 50\<rparr>,
             \<lparr>le_summonerId = ''b'', le_summonerName = ''Bob'', le_leaguePoints = 200\<rparr>,
             \<lparr>le_summonerId = ''c'', le_summonerName = ''Cy'', le_leaguePoints = 100\<rparr>])\<rparr>"

definition first_profile_fails_env :: env where
  \<comment> \<open>the profile lookup of the first ladder entry fails\<close>
  "first_profile_fails_env = ladder_env
     \<lparr>summoner_by_id := (\<lambda>t reg sid.
        if sid = ''a'' then Inl (ApiError 404)
        else Inr [''puuid'' \<mapsto> ''pu-'' @ sid, ''accountId'' \<mapsto> ''acc-'' @ sid,
                  ''name'' \<mapsto> sid])\<rparr>"

definition second_profile_fails_env :: env where
  \<comment> \<open>the profile lookup of the second ladder entry fails, after one that succeeded\<close>
  "second_profile_fails_env = ladder_env
     \<lparr>summoner_by_id := (\<lambda>t reg sid.
        if sid = ''b'' then Inl (ApiError 404)
        else Inr [''puuid'' \<mapsto> ''pu-'' @ sid, ''accountId'' \<mapsto> ''acc-'' @ sid,
                  ''name'' \<mapsto> sid])\<rparr>"

definition two_players :: "participant list" where
  "two_players =
     [\<lparr>pa_summonerName = ''Ann'', pa_puuid = ''A'', pa_summonerId = ''a'', pa_championId = 1,
       pa_win = True\<rparr>,
      \<lparr>pa_summonerName = ''Bob'', pa_puuid = ''B'', pa_summonerId = ''b'', pa_championId = 2,
       pa_win = False\<rparr>]"

definition overlap_env :: env where
  \<comment> \<open>the seed players A and B both list the match M123\<close>
  "overlap_env = quiet_env
     \<lparr>matchlist_by_puuid := (\<lambda>t reg puuid start_time end_time.
        if puuid = ''A'' then Inr [''M123'', ''M7''] else Inr [''M123'']),
      match_by_id := (\<lambda>t reg mid. Inr two_players)\<rparr>"

definition listing_fails_env :: env where
  \<comment> \<open>listing the matches of player A fails, listing those of B would succeed\<close>
  "listing_fails_env = quiet_env
     \<lparr>matchlist_by_puuid := (\<lambda>t reg puuid start_time end_time.
        if puuid = ''A'' then Inl (ApiError 500) else Inr [''M123'']),
      match_by_id := (\<lambda>t reg mid. Inr two_players)\<rparr>"

definition detail_fails_env :: env where
  \<comment> \<open>player A lists five matches and the detail of the third cannot be fetched\<close>
  "detail_fails_env = quiet_env
     \<lparr>matchlist_by_puuid := (\<lambda>t reg puuid start_time end_time.
        if puuid = ''A'' then Inr [''M1'', ''M2'', ''M3'', ''M4'', ''M5''] else Inr [''M4'']),
      match_by_id := (\<lambda>t reg mid. if mid = ''M3'' then Inl (ApiError 503) else Inr two_players)\<rparr>"


definition mk_slot :: "string \<Rightarrow> slot" where
  "mk_slot nm = \<lparr>s_name = nm, s_puuid = ''pu-'' @ nm, s_summonerId = ''id-'' @ nm, s_champId = 1,
                 s_win = True\<rparr>"

definition small_table :: "match_row list" where
  \<comment> \<open>one match; the player of its first slot is called \<^verbatim>\<open><U>\<close>\<close>
  "small_table =
     [\<lparr>match_id = ''M1'',
       slots = map mk_slot [''<U>'', ''b'', ''c'', ''d'', ''e'', ''f'', ''g'', ''h'', ''i'', ''j'']\<rparr>]"

definition small_directory :: directory where
  \<comment> \<open>the directory \<open>process_player_data_from_matches\<close> builds from \<open>small_table\<close>\<close>
  "small_directory =
     make_directory True
       (unknown_row #
        map (\<lambda>nm. (nm, ''pu-'' @ nm, ''id-'' @ nm))
          [''<U>'', ''b'', ''c'', ''d'', ''e'', ''f'', ''g'', ''h'', ''i'', ''j''])"

definition resolved_slot :: "string \<Rightarrow> nat \<Rightarrow> pslot" where
  "resolved_slot nm key =
     \<lparr>ps_name = nm, ps_key = Some key, ps_champId = 1, ps_champName = Some ''Annie'',
      ps_win = True\<rparr>"

definition small_result :: "prow list" where
  \<comment> \<open>what \<open>process_match_data\<close> makes of \<open>small_table\<close> and \<open>small_directory\<close>: the
      match row twice\<close>
  "small_result =
     [\<lparr>p_index = 0, p_match_id = ''M1'',
       p_slots = [resolved_slot ''<U>'' 0, resolved_slot ''b'' 2, resolved_slot ''c'' 3,
                  resolved_slot ''d'' 4, resolved_slot ''e'' 5, resolved_slot ''f'' 6,
                  resolved_slot ''g'' 7, resolved_slot ''h'' 8, resolved_slot ''i'' 9,
                  resolved_slot ''j'' 10]\<rparr>,
      \<lparr>p_index = 0, p_match_id = ''M1'',
       p_slots = [resolved_slot ''<U>'' 1, resolved_slot ''b'' 2, resolved_slot ''c'' 3,
                  resolved_slot ''d'' 4, resolved_slot ''e'' 5, resolved_slot ''f'' 6,
                  resolved_slot ''g'' 7, resolved_slot ''h'' 8, resolved_slot ''i'' 9,
                  resolved_slot ''j'' 10]\<rparr>]"

definition table_env :: env where
  \<comment> \<open>the files hold \<open>small_table\<close> and \<open>small_directory\<close>; the ladder is that of
      \<open>ladder_env\<close>, the match lists are those of \<open>overlap_env\<close>\<close>
  "table_env = overlap_env
     \<lparr>challenger_by_queue := challenger_by_queue ladder_env,
      champions := (\<lambda>t version. Inr [\<lparr>c_key = 1, c_name = ''Annie''\<rparr>]),
      read_csv_matches := (\<lambda>t path. Inr small_table),
      read_csv_directory := (\<lambda>t path. Inr small_directory)\<rparr>"

definition disk_full_env :: env where
  \<comment> \<open>as \<open>table_env\<close>, and every write fails\<close>
  "disk_full_env = table_env\<lparr>to_csv := (\<lambda>t path. Some (OSError ''No space left on device''))\<rparr>"

section \<open>Evaluation lemmas\<close>

lemma quiet_env_sel:
  "platform_data quiet_env = (\<lambda>t reg. None)"
  "challenger_by_queue quiet_env = (\<lambda>t reg. Inr [])"
  "grandmaster_by_queue quiet_env = (\<lambda>t reg. Inr [])"
  "masters_by_queue quiet_env = (\<lambda>t reg. Inr [])"
  "summoner_by_id quiet_env =
     (\<lambda>t reg sid. Inr [''puuid'' \<mapsto> ''pu-'' @ sid, ''accountId'' \<mapsto> ''acc-'' @ sid])"
  "matchlist_by_puuid quiet_env = (\<lambda>t reg puuid start_time end_time. Inr [])"
  "match_by_id quiet_env = (\<lambda>t reg mid. Inr [])"
  "versions_for_region quiet_env = (\<lambda>t reg. Inr ''14.1.1'')"
  "champions quiet_env = (\<lambda>t version. Inr [])"
  "time_time quiet_env = (\<lambda>t. 1000 + of_nat t)"
  "read_csv_players quiet_env = (\<lambda>t path. Inl (FileNotFoundError path))"
  "read_csv_matches quiet_env = (\<lambda>t path. Inl (FileNotFoundError path))"
  "read_csv_directory quiet_env = (\<lambda>t path. Inl (FileNotFoundError path))"
  "to_csv quiet_env = (\<lambda>t path. None)"
  "shuffle quiet_env = (\<lambda>slot_no len. [0..<len])"
  by (simp_all add: quiet_env_def)

lemma ladder_env_sel:
  "platform_data ladder_env = (\<lambda>t reg. None)"
  "challenger_by_queue ladder_env = (\<lambda>t reg.
        Inr [\<lparr>le_summonerId = ''a'', le_summonerName = ''Ann'', le_leaguePoints = 50\<rparr>,
             \<lparr>le_summonerId = ''b'', le_summonerName = ''Bob'', le_leaguePoints = 200\<rparr>,
             \<lparr>le_summonerId = ''c'', le_summonerName = ''Cy'', le_leaguePoints = 100\<rparr>])"
  "grandmaster_by_queue ladder_env = (\<lambda>t reg. Inr [])"
  "masters_by_queue ladder_env = (\<lambda>t reg. Inr [])"
  "summoner_by_id ladder_env =
     (\<lambda>t reg sid. Inr [''puuid'' \<mapsto> ''pu-'' @ sid, ''accountId'' \<mapsto> ''acc-'' @ sid])"
  "time_time ladder_env = (\<lambda>t. 1000 + of_nat t)"
  "to_csv ladder_env = (\<lambda>t path. None)"
  by (simp_all add: ladder_env_def quiet_env_sel)

lemmas eval_defs = region_ok_def valid_regions_def check_api_key_def fetch_ladder_def
  resolve_one_def progress_def sorted_reverse_def sort_values_descending_def save_players_def
  py_round_def str_int_def str_nat.simps digit_char_def Let_def

lemmas crawl_eval_defs = load_matches_def load_puuids_def puuid_column_def crawl_start_def
  load_matches_from_player_def player_done_def save_matches_def dict_merge_def

section \<open>Ladder loader\<close>

lemma sort_key_neg_descending:
  "sorted_wrt (\<ge>) (map pl_leaguePoints (sort_key (\<lambda>r. - pl_leaguePoints r) rows))"
proof -
  have "sorted (map (\<lambda>r. - pl_leaguePoints r) (sort_key (\<lambda>r. - pl_leaguePoints r) rows))"
    by (rule sorted_sort_key)
  then show ?thesis
    by (simp add: sorted_map sorted_wrt_map)
qed

lemma save_players_rows:
  "save_players E reg save_path rows w = (Inr df, w') \<Longrightarrow> pl_rows df = rows"
  by (auto simp: save_players_def Let_def split: option.splits)

text \<open>
  Claim C9. Whenever \<open>load_players\<close> returns a table, for any region, player count, save
  path and any answers of the API, the league points of its rows are in descending
  order, whatever the order in which the tier listings gave the entries.
\<close>

theorem load_players_sorted_descending:
  "load_players E reg player_count save_path w = (Inr df, w') \<Longrightarrow>
   sorted_wrt (\<ge>) (map pl_leaguePoints (pl_rows df))"
  by (auto simp: load_players_def sort_values_descending_def sort_key_neg_descending
      split: if_splits prod.splits sum.splits dest!: save_players_rows)

text \<open>
  The example of the specification: ladder entries with 50, 200 and 100 league points come
  out as 200, 100, 50.
\<close>

theorem load_players_sorted_descending_witness:
  "load_players ladder_env ''na1'' 3 None [] =
     (Inr \<lparr>pl_rows =
         [\<lparr>pl_puuid = ''pu-b'', pl_accountId = ''acc-b'',
             pl_summonerId = ''b'', pl_summonerName = ''Bob'',
             pl_leaguePoints = 200\<rparr>,
          \<lparr>pl_puuid = ''pu-c'', pl_accountId = ''acc-c'',
             pl_summonerId = ''c'', pl_summonerName = ''Cy'',
             pl_leaguePoints = 100\<rparr>,
          \<lparr>pl_puuid = ''pu-a'', pl_accountId = ''acc-a'',
             pl_summonerId = ''a'', pl_summonerName = ''Ann'',
             pl_leaguePoints = 50\<rparr>],
         pl_file_name = ''raw_player_data_na1_1007.csv''\<rparr>,
      [Platform_data ''na1'', Challenger_by_queue ''na1'',
       Grandmaster_by_queue ''na1'', Masters_by_queue ''na1'',
       Summoner_by_id ''na1'' ''a'', Summoner_by_id ''na1'' ''b'',
       Summoner_by_id ''na1'' ''c'', Time_time]) \<and>
   sorted_wrt (\<ge>) [200, 100, 50 :: int]"
proof -
  have run: "load_players ladder_env ''na1'' 3 None [] =
     (Inr \<lparr>pl_rows =
         [\<lparr>pl_puuid = ''pu-b'', pl_accountId = ''acc-b'',
             pl_summonerId = ''b'', pl_summonerName = ''Bob'',
             pl_leaguePoints = 200\<rparr>,
          \<lparr>pl_puuid = ''pu-c'', pl_accountId = ''acc-c'',
             pl_summonerId = ''c'', pl_summonerName = ''Cy'',
             pl_leaguePoints = 100\<rparr>,
          \<lparr>pl_puuid = ''pu-a'', pl_accountId = ''acc-a'',
             pl_summonerId = ''a'', pl_summonerName = ''Ann'',
             pl_leaguePoints = 50\<rparr>],
         pl_file_name = ''raw_player_data_na1_1007.csv''\<rparr>,
      [Platform_data ''na1'', Challenger_by_queue ''na1'',
       Grandmaster_by_queue ''na1'', Masters_by_queue ''na1'',
       Summoner_by_id ''na1'' ''a'', Summoner_by_id ''na1'' ''b'',
       Summoner_by_id ''na1'' ''c'', Time_time])"
    by (simp add: load_players_def ladder_env_sel eval_defs upto_rec1)
  from load_players_sorted_descending [OF run] run show ?thesis by simp
qed

text \<open>
  Claim C5. The claim says that a failed profile lookup is logged and skipped. The handler
  of line 54 prints \<^verbatim>\<open>summoner_info['summonerName']\<close>, the result of the lookup that has
  just failed: when the first entry fails the name is not bound and the run ends with
  \<^verbatim>\<open>UnboundLocalError\<close>; when a later entry fails the name still holds the previous
  profile, and the run ends with \<^verbatim>\<open>KeyError\<close> unless that profile has a key
  \<^verbatim>\<open>summonerName\<close>. No table is returned in either run.
\<close>

theorem load_players_profile_failure_aborts:
  "load_players first_profile_fails_env ''na1'' 3 None [] =
     (Inl (UnboundLocalError ''summoner_info''),
      [Platform_data ''na1'', Challenger_by_queue ''na1'', Grandmaster_by_queue ''na1'',
       Masters_by_queue ''na1'', Summoner_by_id ''na1'' ''a'']) \<and>
   load_players second_profile_fails_env ''na1'' 3 None [] =
     (Inl (KeyError ''summonerName''),
      [Platform_data ''na1'', Challenger_by_queue ''na1'', Grandmaster_by_queue ''na1'',
       Masters_by_queue ''na1'', Summoner_by_id ''na1'' ''a'', Summoner_by_id ''na1'' ''b''])"
  by (simp add: load_players_def first_profile_fails_env_def second_profile_fails_env_def
      ladder_env_sel eval_defs upto_rec1)

section \<open>Argument checks\<close>

text \<open>
  Claim C6. The claim says that the four regions na1, euw1, eun1 and kr pass the region
  check and every other string fails it. The list of lines 25 and 102 lacks a comma, so it
  holds \<^verbatim>\<open>'eun1kr'\<close>: both functions reject \<^verbatim>\<open>kr\<close> (and \<^verbatim>\<open>eun1\<close>) with the
  assertion error, before anything else happens, and the check accepts \<^verbatim>\<open>eun1kr\<close>.
\<close>

theorem region_allow_list_slip:
  "\<not> region_ok ''kr'' \<and> \<not> region_ok ''eun1'' \<and> region_ok ''eun1kr'' \<and>
   load_players E ''kr'' player_count save_path w = (Inl (AssertionError ''Invalid region.''), w) \<and>
   load_matches E ''kr'' date players load_path save_path time_limit w =
     (Inl (AssertionError ''Invalid region''), w)"
  by (simp add: region_ok_def valid_regions_def load_players_def load_matches_def)

text \<open>
  Claim C10, as the claim states it, fails: with a region outside the list the call
  without a time limit ends at the region check of line 102, not at the comparison of
  line 103.
\<close>

theorem load_matches_region_checked_first:
  "load_matches quiet_env ''br1'' 0 None None None None [] =
     (Inl (AssertionError ''Invalid region''), [])"
  by (simp add: load_matches_def region_ok_def valid_regions_def)

text \<open>
  Claim C10, amended. A call of \<open>load_matches\<close> without a time limit raises before any
  event (no clock read, no file read, no remote call; the log is returned unchanged): the
  \<^verbatim>\<open>TypeError\<close> of the comparison \<^verbatim>\<open>None > 0\<close> when the region passes the check of
  line 102, the assertion error of that check otherwise. And whenever \<open>load_matches\<close>
  returns a table, the time limit was given and positive.
\<close>

theorem load_matches_needs_time_limit:
  "load_matches E reg date players load_path save_path None w =
     (Inl (if region_ok reg then TypeError ''> not supported between NoneType and int''
           else AssertionError ''Invalid region''), w) \<and>
   (load_matches E reg date players load_path save_path time_limit w = (Inr df, w') \<longrightarrow>
      (\<exists>t. time_limit = Some t \<and> 0 < t))"
  by (auto simp: load_matches_def split: option.splits if_splits)

theorem load_matches_needs_time_limit_witness:
  "load_matches quiet_env ''na1'' 0 (Some [''puuid'' \<mapsto> [''p1'']]) None None None [] =
     (Inl (TypeError ''> not supported between NoneType and int''), []) \<and>
   load_matches quiet_env ''na1'' 0 (Some [''puuid'' \<mapsto> [''p1'']]) None None (Some 1) [] =
     (Inr \<lparr>m_rows = [], m_file_name = ''raw_match_data_na1_0_1001.csv''\<rparr>,
      [Time_time, Platform_data ''na1'', Time_time, Matchlist_by_puuid ''na1'' ''p1'', Time_time]) \<and>
   (\<exists>t. Some (1::real) = Some t \<and> 0 < t)"
proof -
  have run: "load_matches quiet_env ''na1'' 0 (Some [''puuid'' \<mapsto> [''p1'']]) None None (Some 1) [] =
     (Inr \<lparr>m_rows = [], m_file_name = ''raw_match_data_na1_0_1001.csv''\<rparr>,
      [Time_time, Platform_data ''na1'', Time_time, Matchlist_by_puuid ''na1'' ''p1'', Time_time])"
    by (simp add: crawl_eval_defs quiet_env_sel eval_defs)
  have ok: "region_ok ''na1''"
    by (simp add: region_ok_def valid_regions_def)
  from load_matches_needs_time_limit
    [of quiet_env "''na1''" 0 "Some [''puuid'' \<mapsto> [''p1'']]" None None "[]" "Some 1"]
    run ok
  show ?thesis by simp
qed

section \<open>Match crawler\<close>

lemma fetched_ids_append: "fetched_ids (a @ b) = fetched_ids a @ fetched_ids b"
  by (induction a rule: fetched_ids.induct) auto

lemma no_refetch_append:
  "no_refetch seen (a @ b) = (no_refetch seen a \<and> no_refetch (seen @ fetched_ids a) b)"
  by (induction seen a rule: no_refetch.induct) auto

lemma no_refetch_distinct:
  "distinct seen \<Longrightarrow> no_refetch seen es \<Longrightarrow> distinct (seen @ fetched_ids es)"
  by (induction seen es rule: no_refetch.induct) (auto split: if_splits)

lemma dict_set_keys:
  "map fst (dict_set d k v) = (if k \<in> fst ` set d then map fst d else map fst d @ [k])"
  by (induction d) force+

lemma dict_set_distinct: "distinct (map fst d) \<Longrightarrow> distinct (map fst (dict_set d k v))"
  by (simp add: dict_set_keys)

lemma dict_merge_distinct: "distinct (map fst a) \<Longrightarrow> distinct (map fst (dict_merge a b))"
  unfolding dict_merge_def
  by (induction b arbitrary: a) (simp_all add: dict_set_distinct)

lemma fetch_matches_log:
  "fetch_matches E reg ms pmd searched w = (b, pmd', searched', w') \<Longrightarrow>
   \<exists>es. w' = w @ es \<and> searched' = searched @ fetched_ids es \<and> no_refetch searched es"
proof (induction ms arbitrary: pmd searched w)
  case Nil
  then show ?case by simp
next
  case (Cons mid rest)
  show ?case
  proof (cases "mid \<in> set searched")
    case True
    with Cons show ?thesis by simp
  next
    case False
    show ?thesis
    proof (cases "match_by_id E (length w) reg mid")
      case (Inl e)
      with False Cons.prems show ?thesis by auto
    next
      case (Inr info)
      with False Cons.prems have
        "fetch_matches E reg rest (dict_set pmd mid (serialise info)) (searched @ [mid])
           (w @ [Match_by_id reg mid True]) = (b, pmd', searched', w')"
        by simp
      from Cons.IH [OF this] obtain es where
        "w' = (w @ [Match_by_id reg mid True]) @ es"
        "searched' = (searched @ [mid]) @ fetched_ids es"
        "no_refetch (searched @ [mid]) es"
        by blast
      with False have
        "w' = w @ (Match_by_id reg mid True # es) \<and>
         searched' = searched @ fetched_ids (Match_by_id reg mid True # es) \<and>
         no_refetch searched (Match_by_id reg mid True # es)"
        by simp
      then show ?thesis by blast
    qed
  qed
qed

lemma fetch_matches_keys:
  "fetch_matches E reg ms pmd searched w = (b, pmd', searched', w') \<Longrightarrow>
   distinct (map fst pmd) \<Longrightarrow> distinct (map fst pmd')"
  by (induction ms arbitrary: pmd searched w)
     (auto split: if_splits sum.splits simp: dict_set_distinct)

lemma load_matches_from_player_log:
  "load_matches_from_player E puuid date ct reg searched w = (r, w') \<Longrightarrow>
   \<exists>es. w' = w @ es \<and> no_refetch searched es \<and>
     (\<forall>pmd searched'. r = Some (pmd, searched') \<longrightarrow>
        searched' = searched @ fetched_ids es \<and> distinct (map fst pmd))"
proof (cases "matchlist_by_puuid E (length w) reg puuid date ct")
  case (Inl e)
  assume "load_matches_from_player E puuid date ct reg searched w = (r, w')"
  with Inl show ?thesis
    by (auto simp: load_matches_from_player_def)
next
  case (Inr ml)
  assume run: "load_matches_from_player E puuid date ct reg searched w = (r, w')"
  obtain b pmd s1 w1 where
    f: "fetch_matches E reg ml [] searched (w @ [Matchlist_by_puuid reg puuid]) = (b, pmd, s1, w1)"
    using prod_cases4 by blast
  with run Inr have r: "r = Some (pmd, s1)" "w' = w1"
    by (auto simp: load_matches_from_player_def)
  from fetch_matches_log [OF f] obtain es where
    es: "w1 = (w @ [Matchlist_by_puuid reg puuid]) @ es" "s1 = searched @ fetched_ids es"
        "no_refetch searched es"
    by blast
  from fetch_matches_keys [OF f] have "distinct (map fst pmd)" by simp
  with r es have
    "w' = w @ (Matchlist_by_puuid reg puuid # es) \<and>
     no_refetch searched (Matchlist_by_puuid reg puuid # es) \<and>
     (\<forall>pmd' searched'. r = Some (pmd', searched') \<longrightarrow>
        searched' = searched @ fetched_ids (Matchlist_by_puuid reg puuid # es) \<and>
        distinct (map fst pmd'))"
    by simp
  then show ?thesis by blast
qed

lemma player_done_log:
  "player_done E ct limit n st w = (b, st', w') \<Longrightarrow>
   \<exists>es. w' = w @ es \<and> fetched_ids es = [] \<and> (\<forall>seen. no_refetch seen es) \<and>
     cs_searched st' = cs_searched st \<and> cs_match_data st' = cs_match_data st"
  by (auto simp: player_done_def Let_def split: if_splits)

lemma crawl_players_log:
  "crawl_players E reg date ct limit n ps st w = (r, w') \<Longrightarrow>
   \<exists>es. w' = w @ es \<and> no_refetch (cs_searched st) es \<and>
     (\<forall>stopped st'. r = Inr (stopped, st') \<longrightarrow>
        cs_searched st' = cs_searched st @ fetched_ids es \<and>
        (distinct (map fst (cs_match_data st)) \<longrightarrow> distinct (map fst (cs_match_data st'))))"
proof (induction ps arbitrary: st w)
  case Nil
  then show ?case by auto
next
  case (Cons p rest)
  obtain r1 w1 where
    l: "load_matches_from_player E p date ct reg (cs_searched st) w = (r1, w1)"
    by (cases "load_matches_from_player E p date ct reg (cs_searched st) w")
  from load_matches_from_player_log [OF l] obtain es1 where
    w1: "w1 = w @ es1" and nr1: "no_refetch (cs_searched st) es1" and
    r1: "\<forall>pmd searched'. r1 = Some (pmd, searched') \<longrightarrow>
         searched' = cs_searched st @ fetched_ids es1 \<and> distinct (map fst pmd)"
    by blast
  show ?case
  proof (cases r1)
    case None
    with l Cons.prems have "r = Inl (TypeError ''cannot unpack non-iterable NoneType object'')"
      and "w' = w1"
      by simp_all
    with w1 nr1 show ?thesis by blast
  next
    case (Some hs)
    obtain hist s1 where hs: "hs = (hist, s1)" by (cases hs)
    from r1 Some hs have s1: "s1 = cs_searched st @ fetched_ids es1" by blast
    let ?st1 = "st\<lparr>cs_searched := s1, cs_match_data := dict_merge (cs_match_data st) hist\<rparr>"
    obtain b st2 w2 where pd: "player_done E ct limit n ?st1 w1 = (b, st2, w2)"
      using prod_cases3 by blast
    from player_done_log [OF pd] obtain es2 where
      w2: "w2 = w1 @ es2" and f2: "fetched_ids es2 = []" and nr2: "\<forall>seen. no_refetch seen es2"
      and s2: "cs_searched st2 = s1"
      and m2: "cs_match_data st2 = dict_merge (cs_match_data st) hist"
      by auto
    have w12: "w2 = w @ (es1 @ es2)" using w1 w2 by simp
    have nr12: "no_refetch (cs_searched st) (es1 @ es2)"
      using nr1 nr2 by (simp add: no_refetch_append)
    have s12: "cs_searched st2 = cs_searched st @ fetched_ids (es1 @ es2)"
      using s1 s2 f2 by (simp add: fetched_ids_append)
    have d12: "distinct (map fst (cs_match_data st)) \<longrightarrow> distinct (map fst (cs_match_data st2))"
      using m2 by (simp add: dict_merge_distinct)
    show ?thesis
    proof (cases b)
      case True
      with l Some hs pd Cons.prems have "r = Inr (True, st2)" and "w' = w2" by simp_all
      with w12 nr12 s12 d12 show ?thesis by blast
    next
      case False
      with l Some hs pd Cons.prems have
        "crawl_players E reg date ct limit n rest st2 w2 = (r, w')" by simp
      from Cons.IH [OF this] obtain es3 where
        w3: "w' = w2 @ es3" and nr3: "no_refetch (cs_searched st2) es3" and
        r3: "\<forall>stopped st'. r = Inr (stopped, st') \<longrightarrow>
             cs_searched st' = cs_searched st2 @ fetched_ids es3 \<and>
             (distinct (map fst (cs_match_data st2)) \<longrightarrow> distinct (map fst (cs_match_data st')))"
        by blast
      have a: "w' = w @ ((es1 @ es2) @ es3)" using w12 w3 by simp
      have b: "no_refetch (cs_searched st) ((es1 @ es2) @ es3)"
        using nr12 nr3 s12 no_refetch_append [of "cs_searched st" "es1 @ es2" es3] by simp
      have c: "\<forall>stopped st'. r = Inr (stopped, st') \<longrightarrow>
            cs_searched st' = cs_searched st @ fetched_ids ((es1 @ es2) @ es3) \<and>
            (distinct (map fst (cs_match_data st)) \<longrightarrow> distinct (map fst (cs_match_data st')))"
      proof (intro allI impI)
        fix stopped st'
        assume "r = Inr (stopped, st')"
        with r3 have x: "cs_searched st' = cs_searched st2 @ fetched_ids es3"
          and y: "distinct (map fst (cs_match_data st2)) \<longrightarrow> distinct (map fst (cs_match_data st'))"
          by blast+
        from x s12 have "cs_searched st' = cs_searched st @ fetched_ids ((es1 @ es2) @ es3)"
          by (simp add: fetched_ids_append)
        with y d12 show "cs_searched st' = cs_searched st @ fetched_ids ((es1 @ es2) @ es3) \<and>
            (distinct (map fst (cs_match_data st)) \<longrightarrow> distinct (map fst (cs_match_data st')))"
          by blast
      qed
      from a b c show ?thesis by blast
    qed
  qed
qed

lemma match_calls_append: "match_calls (a @ b) = match_calls a @ match_calls b"
  by (induction a rule: match_calls.induct) auto


lemma quiet_fetched: "match_calls es = [] \<Longrightarrow> fetched_ids es = []"
  by (induction es rule: match_calls.induct) auto

lemma quiet_no_refetch: "match_calls es = [] \<Longrightarrow> no_refetch seen es"
  by (induction es arbitrary: seen rule: match_calls.induct) auto

lemma load_puuids_log:
  "load_puuids E players load_path w = (r, w') \<Longrightarrow> \<exists>es. w' = w @ es \<and> match_calls es = []"
  by (auto simp: load_puuids_def puuid_column_def split: option.splits sum.splits exn.splits)

lemma check_api_key_log:
  "check_api_key E reg w = (r, w') \<Longrightarrow> \<exists>es. w' = w @ es \<and> match_calls es = []"
  by (auto simp: check_api_key_def split: option.splits api_error.splits if_splits)

lemma save_matches_log:
  "save_matches E reg date ct save_path md w = (r, w') \<Longrightarrow>
   \<exists>es df. w' = w @ es \<and> match_calls es = [] \<and> r = Inr df \<and>
     m_rows df = map (\<lambda>kv. \<lparr>match_id = fst kv, slots = snd kv\<rparr>) md"
  by (auto simp: save_matches_def Let_def split: option.splits)

lemma load_matches_log:
  assumes run: "load_matches E reg date players load_path save_path time_limit w = (r, w')"
  shows "\<exists>es. w' = w @ es \<and> no_refetch [] es \<and>
           (\<forall>df. r = Inr df \<longrightarrow> distinct (map match_id (m_rows df)))"
proof (cases "region_ok reg")
  case False
  with run have "r = Inl (AssertionError ''Invalid region'')" and "w' = w @ []"
    by (simp_all add: load_matches_def)
  then show ?thesis by (intro exI [of _ "[]"]) simp
next
  case reg: True
  show ?thesis
  proof (cases time_limit)
    case None
    with run reg have "r = Inl (TypeError ''> not supported between NoneType and int'')"
      and "w' = w @ []"
      by (simp_all add: load_matches_def)
    then show ?thesis by (intro exI [of _ "[]"]) simp
  next
    case (Some limit)
    show ?thesis
    proof (cases "0 < limit \<and> of_int date < time_time E (length w)")
      case False
      with run reg Some have "\<exists>e. r = Inl e" and "w' = w @ [] \<or> w' = w @ [Time_time]"
        by (auto simp: load_matches_def split: if_splits)
      then show ?thesis by auto
    next
      case chk: True
      obtain rp w2 where lp: "load_puuids E players load_path (w @ [Time_time]) = (rp, w2)"
        by (cases "load_puuids E players load_path (w @ [Time_time])")
      from load_puuids_log [OF lp] obtain es1 where
        w2: "w2 = (w @ [Time_time]) @ es1" and q1: "match_calls es1 = []"
        by blast
      show ?thesis
      proof (cases rp)
        case (Inl e)
        with run reg Some chk lp have "r = Inl e" and "w' = w2"
          by (simp_all add: load_matches_def)
        with w2 q1 have "w' = w @ (Time_time # es1) \<and> no_refetch [] (Time_time # es1) \<and>
           (\<forall>df. r = Inr df \<longrightarrow> distinct (map match_id (m_rows df)))"
          by (simp add: quiet_no_refetch)
        then show ?thesis by blast
      next
        case (Inr puuids)
        obtain rk w3 where ck: "check_api_key E reg w2 = (rk, w3)"
          by (cases "check_api_key E reg w2")
        from check_api_key_log [OF ck] obtain es2 where
          w3: "w3 = w2 @ es2" and q2: "match_calls es2 = []"
          by blast
        have w3': "w3 @ [Time_time] = w @ (Time_time # es1 @ es2 @ [Time_time])"
          using w2 w3 by simp
        have q3: "match_calls (Time_time # es1 @ es2 @ [Time_time]) = []"
          using q1 q2 by (simp add: match_calls_append)
        show ?thesis
        proof (cases rk)
          case (Inl e)
          with run reg Some chk lp Inr ck have "r = Inl e" and "w' = w3"
            by (simp_all add: load_matches_def)
          with w2 w3 q1 q2 have
            "w' = w @ (Time_time # es1 @ es2) \<and> no_refetch [] (Time_time # es1 @ es2) \<and>
             (\<forall>df. r = Inr df \<longrightarrow> distinct (map match_id (m_rows df)))"
            by (simp add: quiet_no_refetch match_calls_append)
          then show ?thesis by blast
        next
          case ok: (Inr u)
          let ?ct = "py_round (time_time E (length w3) - 1)"
          obtain rc w5 where cr:
            "crawl_players E reg date ?ct limit (length puuids) puuids crawl_start
               (w3 @ [Time_time]) = (rc, w5)"
            by (cases "crawl_players E reg date ?ct limit (length puuids) puuids crawl_start
               (w3 @ [Time_time])")
          from crawl_players_log [OF cr] obtain es3 where
            w5: "w5 = (w3 @ [Time_time]) @ es3" and
            nr3: "no_refetch (cs_searched crawl_start) es3" and
            r3: "\<forall>stopped st'. rc = Inr (stopped, st') \<longrightarrow>
                   cs_searched st' = cs_searched crawl_start @ fetched_ids es3 \<and>
                   (distinct (map fst (cs_match_data crawl_start)) \<longrightarrow>
                    distinct (map fst (cs_match_data st')))"
            by blast
          have nr3': "no_refetch [] es3" using nr3 by (simp add: crawl_start_def)
          have w5': "w5 = w @ ((Time_time # es1 @ es2 @ [Time_time]) @ es3)"
            using w5 w3' by simp
          have nr5: "no_refetch [] ((Time_time # es1 @ es2 @ [Time_time]) @ es3)"
            using nr3' q3 quiet_no_refetch [OF q3, of "[]"] quiet_fetched [OF q3]
              no_refetch_append [of "[]" "Time_time # es1 @ es2 @ [Time_time]" es3]
            by simp
          show ?thesis
          proof (cases rc)
            case (Inl e)
            with run reg Some chk lp Inr ck ok cr have "r = Inl e" and "w' = w5"
              by (simp_all add: load_matches_def)
            with w5' nr5 show ?thesis by blast
          next
            case (Inr x)
            obtain stopped st where x: "x = (stopped, st)" by (cases x)
            with Inr r3 have "distinct (map fst (cs_match_data crawl_start)) \<longrightarrow>
                    distinct (map fst (cs_match_data st))"
              by blast
            then have d: "distinct (map fst (cs_match_data st))"
              by (simp add: crawl_start_def)
            from run reg Some chk lp \<open>rp = Inr puuids\<close> ck ok cr Inr x have sv:
              "save_matches E reg date ?ct save_path (cs_match_data st) w5 = (r, w')"
              by (simp add: load_matches_def)
            from save_matches_log [OF sv] obtain es4 df where
              w': "w' = w5 @ es4" and q4: "match_calls es4 = []" and rdf: "r = Inr df" and
              rows: "m_rows df = map (\<lambda>kv. \<lparr>match_id = fst kv, slots = snd kv\<rparr>) (cs_match_data st)"
              by blast
            have m: "map match_id (m_rows df) = map fst (cs_match_data st)"
              using rows by (simp add: comp_def)
            have a: "w' = w @ (((Time_time # es1 @ es2 @ [Time_time]) @ es3) @ es4)"
              using w' w5' by simp
            have b: "no_refetch [] (((Time_time # es1 @ es2 @ [Time_time]) @ es3) @ es4)"
              using nr5 quiet_no_refetch [OF q4]
                no_refetch_append [of "[]" "(Time_time # es1 @ es2 @ [Time_time]) @ es3" es4]
              by simp
            have c: "\<forall>df'. r = Inr df' \<longrightarrow> distinct (map match_id (m_rows df'))"
              using rdf m d by simp
            from a b c show ?thesis by blast
          qed
        qed
      qed
    qed
  qed
qed

lemma fetch_matches_append:
  "fetch_matches E reg pre pmd searched w = (False, pmd1, s1, w1) \<Longrightarrow>
   fetch_matches E reg (pre @ rest) pmd searched w = fetch_matches E reg rest pmd1 s1 w1"
  by (induction pre arbitrary: pmd searched w) (auto split: if_splits sum.splits)









lemma overlap_env_sel:
  "platform_data overlap_env = (\<lambda>t reg. None)"
  "matchlist_by_puuid overlap_env = (\<lambda>t reg puuid start_time end_time.
        if puuid = ''A'' then Inr [''M123'', ''M7''] else Inr [''M123''])"
  "match_by_id overlap_env = (\<lambda>t reg mid. Inr two_players)"
  "time_time overlap_env = (\<lambda>t. 1000 + of_nat t)"
  "to_csv overlap_env = (\<lambda>t path. None)"
  by (simp_all add: overlap_env_def quiet_env_sel)

lemma listing_fails_env_sel:
  "platform_data listing_fails_env = (\<lambda>t reg. None)"
  "matchlist_by_puuid listing_fails_env = (\<lambda>t reg puuid start_time end_time.
        if puuid = ''A'' then Inl (ApiError 500) else Inr [''M123''])"
  "match_by_id listing_fails_env = (\<lambda>t reg mid. Inr two_players)"
  "time_time listing_fails_env = (\<lambda>t. 1000 + of_nat t)"
  "to_csv listing_fails_env = (\<lambda>t path. None)"
  by (simp_all add: listing_fails_env_def quiet_env_sel)

lemma detail_fails_env_sel:
  "platform_data detail_fails_env = (\<lambda>t reg. None)"
  "matchlist_by_puuid detail_fails_env = (\<lambda>t reg puuid start_time end_time.
        if puuid = ''A'' then Inr [''M1'', ''M2'', ''M3'', ''M4'', ''M5''] else Inr [''M4''])"
  "match_by_id detail_fails_env =
     (\<lambda>t reg mid. if mid = ''M3'' then Inl (ApiError 503) else Inr two_players)"
  "time_time detail_fails_env = (\<lambda>t. 1000 + of_nat t)"
  "to_csv detail_fails_env = (\<lambda>t path. None)"
  by (simp_all add: detail_fails_env_def quiet_env_sel)


text \<open>
  Claim C1. In every run of the crawl loop as \<open>load_matches\<close> starts it (empty searched
  list, empty result), and in every run of \<open>load_matches\<close> itself, whatever the API
  answers and however the run ends: no match-detail call asks for an id that an earlier
  call of the run has fetched, so the fetched ids are pairwise distinct; the searched list
  is exactly the list of fetched ids and has no duplicates; and no match id occurs twice
  among the keys of the result mapping, nor among the rows of the returned table.
\<close>

theorem crawl_fetches_each_match_once:
  "(crawl_players E reg date ct limit n ps crawl_start w = (rc, w1) \<longrightarrow>
      no_refetch [] (drop (length w) w1) \<and>
      distinct (fetched_ids (drop (length w) w1)) \<and>
      (\<forall>stopped st. rc = Inr (stopped, st) \<longrightarrow>
         cs_searched st = fetched_ids (drop (length w) w1) \<and>
         distinct (cs_searched st) \<and>
         distinct (map fst (cs_match_data st)))) \<and>
   (load_matches E reg date players load_path save_path time_limit w = (r, w') \<longrightarrow>
      no_refetch [] (drop (length w) w') \<and>
      distinct (fetched_ids (drop (length w) w')) \<and>
      (\<forall>df. r = Inr df \<longrightarrow> distinct (map match_id (m_rows df))))"
proof (intro conjI impI)
  assume run: "crawl_players E reg date ct limit n ps crawl_start w = (rc, w1)"
  from crawl_players_log [OF run] obtain es where
    w1: "w1 = w @ es" and nr: "no_refetch (cs_searched crawl_start) es" and
    r: "\<forall>stopped st'. rc = Inr (stopped, st') \<longrightarrow>
          cs_searched st' = cs_searched crawl_start @ fetched_ids es \<and>
          (distinct (map fst (cs_match_data crawl_start)) \<longrightarrow>
           distinct (map fst (cs_match_data st')))"
    by blast
  have es: "drop (length w) w1 = es" using w1 by simp
  have nr': "no_refetch [] es" using nr by (simp add: crawl_start_def)
  from no_refetch_distinct [OF _ nr'] have d: "distinct (fetched_ids es)" by simp
  show "no_refetch [] (drop (length w) w1)" using es nr' by simp
  show "distinct (fetched_ids (drop (length w) w1))" using es d by simp
  show "\<forall>stopped st. rc = Inr (stopped, st) \<longrightarrow>
         cs_searched st = fetched_ids (drop (length w) w1) \<and>
         distinct (cs_searched st) \<and>
         distinct (map fst (cs_match_data st))"
  proof (intro allI impI)
    fix stopped st
    assume "rc = Inr (stopped, st)"
    with r have a: "cs_searched st = cs_searched crawl_start @ fetched_ids es" and
      b: "distinct (map fst (cs_match_data crawl_start)) \<longrightarrow> distinct (map fst (cs_match_data st))"
      by blast+
    from a have a': "cs_searched st = fetched_ids es" by (simp add: crawl_start_def)
    from b have b': "distinct (map fst (cs_match_data st))" by (simp add: crawl_start_def)
    from a' b' d es show "cs_searched st = fetched_ids (drop (length w) w1) \<and>
         distinct (cs_searched st) \<and> distinct (map fst (cs_match_data st))"
      by simp
  qed
next
  assume run: "load_matches E reg date players load_path save_path time_limit w = (r, w')"
  from load_matches_log [OF run] obtain es where
    w': "w' = w @ es" and nr: "no_refetch [] es" and
    r: "\<forall>df. r = Inr df \<longrightarrow> distinct (map match_id (m_rows df))"
    by blast
  have es: "drop (length w) w' = es" using w' by simp
  from no_refetch_distinct [OF _ nr] have d: "distinct (fetched_ids es)" by simp
  show "no_refetch [] (drop (length w) w')" using es nr by simp
  show "distinct (fetched_ids (drop (length w) w'))" using es d by simp
  show "\<forall>df. r = Inr df \<longrightarrow> distinct (map match_id (m_rows df))" using r .
qed

text \<open>
  The players A and B both list M123: it is fetched once, and listing it again for B costs
  no match-detail call.
\<close>

theorem crawl_fetches_each_match_once_witness:
  "crawl_players overlap_env ''na1'' 0 1001 1 2 [''A'', ''B''] crawl_start [] =
     (Inr (False,
           \<lparr>cs_searched = [''M123'', ''M7''],
            cs_match_data = [(''M123'', serialise two_players), (''M7'', serialise two_players)],
            cs_prev = 0, cs_i = 2\<rparr>),
      [Matchlist_by_puuid ''na1'' ''A'', Match_by_id ''na1'' ''M123'' True,
       Match_by_id ''na1'' ''M7'' True, Time_time,
       Matchlist_by_puuid ''na1'' ''B'', Time_time]) \<and>
   load_matches overlap_env ''na1'' 0 (Some [''puuid'' \<mapsto> [''A'', ''B'']]) None None (Some 1) [] =
     (Inr \<lparr>m_rows = [\<lparr>match_id = ''M123'', slots = serialise two_players\<rparr>,
                      \<lparr>match_id = ''M7'', slots = serialise two_players\<rparr>],
           m_file_name = ''raw_match_data_na1_0_1001.csv''\<rparr>,
      [Time_time, Platform_data ''na1'', Time_time,
       Matchlist_by_puuid ''na1'' ''A'', Match_by_id ''na1'' ''M123'' True,
       Match_by_id ''na1'' ''M7'' True, Time_time,
       Matchlist_by_puuid ''na1'' ''B'', Time_time]) \<and>
   no_refetch []
     [Time_time, Platform_data ''na1'', Time_time,
      Matchlist_by_puuid ''na1'' ''A'', Match_by_id ''na1'' ''M123'' True,
      Match_by_id ''na1'' ''M7'' True, Time_time,
      Matchlist_by_puuid ''na1'' ''B'', Time_time] \<and>
   match_calls
     [Time_time, Platform_data ''na1'', Time_time,
      Matchlist_by_puuid ''na1'' ''A'', Match_by_id ''na1'' ''M123'' True,
      Match_by_id ''na1'' ''M7'' True, Time_time,
      Matchlist_by_puuid ''na1'' ''B'', Time_time] = [''M123'', ''M7''] \<and>
   distinct [''M123'', ''M7'']"
proof -
  have c: "crawl_players overlap_env ''na1'' 0 1001 1 2 [''A'', ''B''] crawl_start [] =
     (Inr (False,
           \<lparr>cs_searched = [''M123'', ''M7''],
            cs_match_data = [(''M123'', serialise two_players), (''M7'', serialise two_players)],
            cs_prev = 0, cs_i = 2\<rparr>),
      [Matchlist_by_puuid ''na1'' ''A'', Match_by_id ''na1'' ''M123'' True,
       Match_by_id ''na1'' ''M7'' True, Time_time,
       Matchlist_by_puuid ''na1'' ''B'', Time_time])"
    by (simp add: crawl_eval_defs overlap_env_sel eval_defs)
  have l: "load_matches overlap_env ''na1'' 0 (Some [''puuid'' \<mapsto> [''A'', ''B'']]) None None (Some 1) [] =
     (Inr \<lparr>m_rows = [\<lparr>match_id = ''M123'', slots = serialise two_players\<rparr>,
                      \<lparr>match_id = ''M7'', slots = serialise two_players\<rparr>],
           m_file_name = ''raw_match_data_na1_0_1001.csv''\<rparr>,
      [Time_time, Platform_data ''na1'', Time_time,
       Matchlist_by_puuid ''na1'' ''A'', Match_by_id ''na1'' ''M123'' True,
       Match_by_id ''na1'' ''M7'' True, Time_time,
       Matchlist_by_puuid ''na1'' ''B'', Time_time])"
    by (simp add: crawl_eval_defs overlap_env_sel eval_defs)
  from crawl_fetches_each_match_once
    [of overlap_env "''na1''" 0 1001 1 2 "[''A'', ''B'']" "[]" _ _
        "Some [''puuid'' \<mapsto> [''A'', ''B'']]" None None "Some 1"]
    c l
  show ?thesis by simp
qed



text \<open>
  Claim C3. If the candidates \<open>pre\<close> of a player were gone through without a failure and
  fetching the detail of the next candidate \<open>mid\<close> fails, then the sub-crawl returns at
  once: its log ends with the failed call and the two printed lines, so nothing is asked
  for the remaining candidates \<open>post\<close>; it returns the records fetched for \<open>pre\<close> and the
  searched list; and the crawl loop merges these records and goes on with the next player
  (unless the time check stops it).
\<close>

theorem detail_failure_aborts_player:
  assumes listing: "matchlist_by_puuid E (length w) reg puuid date ct = Inr (pre @ mid # post)"
    and fetched: "fetch_matches E reg pre [] (cs_searched st) (w @ [Matchlist_by_puuid reg puuid]) =
                    (False, pmd, searched', w1)"
    and new: "mid \<notin> set searched'"
    and fails: "match_by_id E (length w1) reg mid = Inl e"
  shows "load_matches_from_player E puuid date ct reg (cs_searched st) w =
           (Some (pmd, searched'),
            w1 @ [Match_by_id reg mid False, Print [X (Api e)],
                  Print [S ''There was an issue finding the match information for match_id = '',
                         S mid, S '':'']]) \<and>
         crawl_players E reg date ct limit n (puuid # rest) st w =
           (case player_done E ct limit n
                   (st\<lparr>cs_searched := searched',
                       cs_match_data := dict_merge (cs_match_data st) pmd\<rparr>)
                   (w1 @ [Match_by_id reg mid False, Print [X (Api e)],
                          Print [S ''There was an issue finding the match information for match_id = '',
                                 S mid, S '':'']]) of
              (True, st2, w2) \<Rightarrow> (Inr (True, st2), w2)
            | (False, st2, w2) \<Rightarrow> crawl_players E reg date ct limit n rest st2 w2)"
proof -
  let ?w' = "w1 @ [Match_by_id reg mid False, Print [X (Api e)],
                  Print [S ''There was an issue finding the match information for match_id = '',
                         S mid, S '':'']]"
  have "fetch_matches E reg (pre @ mid # post) [] (cs_searched st)
          (w @ [Matchlist_by_puuid reg puuid]) =
        fetch_matches E reg (mid # post) pmd searched' w1"
    by (rule fetch_matches_append [OF fetched])
  also have "\<dots> = (True, pmd, searched', ?w')"
    using new fails by simp
  finally have f: "fetch_matches E reg (pre @ mid # post) [] (cs_searched st)
          (w @ [Matchlist_by_puuid reg puuid]) = (True, pmd, searched', ?w')" .
  have l: "load_matches_from_player E puuid date ct reg (cs_searched st) w =
           (Some (pmd, searched'), ?w')"
    using listing f by (simp add: load_matches_from_player_def)
  then show ?thesis by simp
qed

text \<open>
  The example of the specification: the fetch fails at candidate 3 of 5; candidates 4 and
  5 are not asked for in that sub-crawl, and the crawl goes on with player B.
\<close>

theorem detail_failure_aborts_player_witness:
  "matchlist_by_puuid detail_fails_env 3 ''na1'' ''A'' 0 1001 =
     Inr ([''M1'', ''M2''] @ ''M3'' # [''M4'', ''M5'']) \<and>
   fetch_matches detail_fails_env ''na1'' [''M1'', ''M2''] [] []
     [Time_time, Platform_data ''na1'', Time_time, Matchlist_by_puuid ''na1'' ''A''] =
     (False, [(''M1'', serialise two_players), (''M2'', serialise two_players)], [''M1'', ''M2''],
      [Time_time, Platform_data ''na1'', Time_time, Matchlist_by_puuid ''na1'' ''A'',
       Match_by_id ''na1'' ''M1'' True, Match_by_id ''na1'' ''M2'' True]) \<and>
   ''M3'' \<notin> set [''M1'', ''M2''] \<and>
   match_by_id detail_fails_env 6 ''na1'' ''M3'' = Inl (ApiError 503) \<and>
   load_matches_from_player detail_fails_env ''A'' 0 1001 ''na1'' []
     [Time_time, Platform_data ''na1'', Time_time] =
     (Some ([(''M1'', serialise two_players), (''M2'', serialise two_players)], [''M1'', ''M2'']),
      [Time_time, Platform_data ''na1'', Time_time, Matchlist_by_puuid ''na1'' ''A'',
       Match_by_id ''na1'' ''M1'' True, Match_by_id ''na1'' ''M2'' True,
       Match_by_id ''na1'' ''M3'' False, Print [X (Api (ApiError 503))],
       Print [S ''There was an issue finding the match information for match_id = '',
              S ''M3'', S '':'']]) \<and>
   crawl_players detail_fails_env ''na1'' 0 1001 1 2 [''A'', ''B''] crawl_start
     [Time_time, Platform_data ''na1'', Time_time] =
     (Inr (False,
           \<lparr>cs_searched = [''M1'', ''M2'', ''M4''],
            cs_match_data = [(''M1'', serialise two_players), (''M2'', serialise two_players),
                             (''M4'', serialise two_players)],
            cs_prev = 0, cs_i = 2\<rparr>),
      [Time_time, Platform_data ''na1'', Time_time, Matchlist_by_puuid ''na1'' ''A'',
       Match_by_id ''na1'' ''M1'' True, Match_by_id ''na1'' ''M2'' True,
       Match_by_id ''na1'' ''M3'' False, Print [X (Api (ApiError 503))],
       Print [S ''There was an issue finding the match information for match_id = '',
              S ''M3'', S '':''],
       Time_time, Matchlist_by_puuid ''na1'' ''B'', Match_by_id ''na1'' ''M4'' True, Time_time])"
proof -
  let ?w = "[Time_time, Platform_data ''na1'', Time_time]"
  let ?w1 = "[Time_time, Platform_data ''na1'', Time_time, Matchlist_by_puuid ''na1'' ''A'',
       Match_by_id ''na1'' ''M1'' True, Match_by_id ''na1'' ''M2'' True]"
  let ?pmd = "[(''M1'', serialise two_players), (''M2'', serialise two_players)]"
  have h1: "matchlist_by_puuid detail_fails_env (length ?w) ''na1'' ''A'' 0 1001 =
     Inr ([''M1'', ''M2''] @ ''M3'' # [''M4'', ''M5''])"
    by (simp add: detail_fails_env_sel)
  have h2: "fetch_matches detail_fails_env ''na1'' [''M1'', ''M2''] [] (cs_searched crawl_start)
     (?w @ [Matchlist_by_puuid ''na1'' ''A'']) = (False, ?pmd, [''M1'', ''M2''], ?w1)"
    by (simp add: detail_fails_env_sel crawl_start_def)
  have h3: "''M3'' \<notin> set [''M1'', ''M2'']" by simp
  have h4: "match_by_id detail_fails_env (length ?w1) ''na1'' ''M3'' = Inl (ApiError 503)"
    by (simp add: detail_fails_env_sel)
  note inst = detail_failure_aborts_player [OF h1 h2 h3 h4, of 1 2 "[''B'']"]
  have rest: "crawl_players detail_fails_env ''na1'' 0 1001 1 2 [''A'', ''B''] crawl_start ?w =
     (Inr (False,
           \<lparr>cs_searched = [''M1'', ''M2'', ''M4''],
            cs_match_data = [(''M1'', serialise two_players), (''M2'', serialise two_players),
                             (''M4'', serialise two_players)],
            cs_prev = 0, cs_i = 2\<rparr>),
      [Time_time, Platform_data ''na1'', Time_time, Matchlist_by_puuid ''na1'' ''A'',
       Match_by_id ''na1'' ''M1'' True, Match_by_id ''na1'' ''M2'' True,
       Match_by_id ''na1'' ''M3'' False, Print [X (Api (ApiError 503))],
       Print [S ''There was an issue finding the match information for match_id = '',
              S ''M3'', S '':''],
       Time_time, Matchlist_by_puuid ''na1'' ''B'', Match_by_id ''na1'' ''M4'' True, Time_time])"
    unfolding inst [THEN conjunct2]
    by (simp add: crawl_eval_defs detail_fails_env_sel eval_defs)
  have g1: "matchlist_by_puuid detail_fails_env 3 ''na1'' ''A'' 0 1001 =
     Inr ([''M1'', ''M2''] @ ''M3'' # [''M4'', ''M5''])"
    by (simp add: detail_fails_env_sel)
  have g2: "fetch_matches detail_fails_env ''na1'' [''M1'', ''M2''] [] []
     [Time_time, Platform_data ''na1'', Time_time, Matchlist_by_puuid ''na1'' ''A''] =
     (False, ?pmd, [''M1'', ''M2''], ?w1)"
    using h2 by (simp add: crawl_start_def)
  have g4: "match_by_id detail_fails_env 6 ''na1'' ''M3'' = Inl (ApiError 503)"
    by (simp add: detail_fails_env_sel)
  have g5: "load_matches_from_player detail_fails_env ''A'' 0 1001 ''na1'' [] ?w =
     (Some (?pmd, [''M1'', ''M2'']),
      [Time_time, Platform_data ''na1'', Time_time, Matchlist_by_puuid ''na1'' ''A'',
       Match_by_id ''na1'' ''M1'' True, Match_by_id ''na1'' ''M2'' True,
       Match_by_id ''na1'' ''M3'' False, Print [X (Api (ApiError 503))],
       Print [S ''There was an issue finding the match information for match_id = '',
              S ''M3'', S '':'']])"
    using inst [THEN conjunct1] by (simp add: crawl_start_def)
  show ?thesis by (intro conjI g1 g2 h3 g4 g5 rest)
qed

text \<open>
  Claim C4. The claim says that a failed listing is logged and skipped and the run goes
  on. \<open>load_matches_from_player\<close> prints the failure and returns nothing (line 196), and
  line 144 unpacks the result into two names: the run of \<open>load_matches\<close> ends with
  \<^verbatim>\<open>TypeError\<close>, player B is never reached and no table is returned.
\<close>

theorem listing_failure_ends_run:
  "load_matches listing_fails_env ''na1'' 0 (Some [''puuid'' \<mapsto> [''A'', ''B'']]) None None
     (Some 1) [] =
     (Inl (TypeError ''cannot unpack non-iterable NoneType object''),
      [Time_time, Platform_data ''na1'', Time_time, Matchlist_by_puuid ''na1'' ''A'',
       Print [X (Api (ApiError 500))],
       Print [S ''There was an issue finding the matches of player'', S ''A'', S '':'']])"
  by (simp add: crawl_eval_defs listing_fails_env_sel eval_defs)

section \<open>Table builder\<close>




lemma sample_index_zero: "sample_index E 0 k rows = []"
  by (simp add: sample_index_def py_round_def)

lemma add_noise_zero: "add_noise E 0 k rows = rows"
  by (simp add: add_noise_def sample_index_zero)

lemma set_key_slots:
  "k - 1 < length (p_slots row) \<Longrightarrow>
   p_match_id (set_key k key row) = p_match_id row \<and>
   length (p_slots (set_key k key row)) = length (p_slots row) \<and>
   map ps_name (p_slots (set_key k key row)) = map ps_name (p_slots row) \<and>
   ps_key (p_slots (set_key k key row) ! (k - 1)) = key \<and>
   (\<forall>j. j \<noteq> k - 1 \<longrightarrow> p_slots (set_key k key row) ! j = p_slots row ! j)"
  by (simp add: set_key_def map_update list_update_same_conv)

lemma set_champName_slots:
  "k - 1 < length (p_slots row) \<Longrightarrow>
   p_match_id (set_champName cd k row) = p_match_id row \<and>
   length (p_slots (set_champName cd k row)) = length (p_slots row) \<and>
   map ps_name (p_slots (set_champName cd k row)) = map ps_name (p_slots row) \<and>
   map ps_key (p_slots (set_champName cd k row)) = map ps_key (p_slots row)"
  by (simp add: set_champName_def map_update list_update_same_conv)




















section \<open>Saving\<close>

lemma load_players_save:
  "load_players E reg player_count None w = (Inr df, w1) \<Longrightarrow>
   load_players E reg player_count (Some sp) w =
     (Inr df,
      w1 @ (case to_csv E (length w1) (sp @ pl_file_name df) of
              None \<Rightarrow> [To_csv (sp @ pl_file_name df)]
            | Some e \<Rightarrow> [To_csv (sp @ pl_file_name df), Print [X e],
                         Print [S ''Failed to save player data to .csv file.'']]))"
  by (auto simp: load_players_def save_players_def Let_def
      split: if_splits prod.splits sum.splits option.splits)

lemma load_matches_save:
  "load_matches E reg date players load_path None time_limit w = (Inr df, w1) \<Longrightarrow>
   load_matches E reg date players load_path (Some sp) time_limit w =
     (Inr df,
      w1 @ (case to_csv E (length w1) (sp @ m_file_name df) of
              None \<Rightarrow> [To_csv (sp @ m_file_name df)]
            | Some e \<Rightarrow> [To_csv (sp @ m_file_name df), Print [X e],
                         Print [S ''Failed to save match data to .csv file.'']]))"
  by (auto simp: load_matches_def save_matches_def Let_def
      split: if_splits prod.splits sum.splits option.splits)

lemma process_player_data_save:
  "process_player_data_from_matches E load_path None include_key w = (Inr (dir, None), w2) \<Longrightarrow>
   to_csv E (length w2)
     (sp @ replace_str ''raw_match_data'' ''processed_player_data'' (path_tail load_path)) = Some e \<Longrightarrow>
   process_player_data_from_matches E load_path (Some sp) include_key w =
     (Inl e,
      w2 @ [To_csv (sp @ replace_str ''raw_match_data'' ''processed_player_data''
                          (path_tail load_path)),
            Print [S ''Failed to save processed player data to .csv file.'']])"
  by (auto simp: process_player_data_from_matches_def
      simp del: combine_slots.simps upt_rec_numeral
      split: if_splits prod.splits sum.splits)

lemma process_match_data_save:
  "process_match_data E match_path player_path None noise_rate w = (Inr (rows, None), w3) \<Longrightarrow>
   to_csv E (length w3)
     (sp @ replace_str ''raw_match_data'' ''processed_match_data'' (path_tail match_path)) = Some e \<Longrightarrow>
   process_match_data E match_path player_path (Some sp) noise_rate w =
     (Inl e,
      w3 @ [To_csv (sp @ replace_str ''raw_match_data'' ''processed_match_data''
                          (path_tail match_path)),
            Print [S ''Failed to save processed match data to .csv file.'']])"
  by (auto simp: process_match_data_def
      simp del: process_slots.simps upt_rec_numeral
      split: if_splits prod.splits sum.splits)

lemma table_env_sel:
  "platform_data table_env = (\<lambda>t reg. None)"
  "challenger_by_queue table_env = (\<lambda>t reg.
        Inr [\<lparr>le_summonerId = ''a'', le_summonerName = ''Ann'', le_leaguePoints = 50\<rparr>,
             \<lparr>le_summonerId = ''b'', le_summonerName = ''Bob'', le_leaguePoints = 200\<rparr>,
             \<lparr>le_summonerId = ''c'', le_summonerName = ''Cy'', le_leaguePoints = 100\<rparr>])"
  "grandmaster_by_queue table_env = (\<lambda>t reg. Inr [])"
  "masters_by_queue table_env = (\<lambda>t reg. Inr [])"
  "summoner_by_id table_env =
     (\<lambda>t reg sid. Inr [''puuid'' \<mapsto> ''pu-'' @ sid, ''accountId'' \<mapsto> ''acc-'' @ sid])"
  "matchlist_by_puuid table_env = (\<lambda>t reg puuid start_time end_time.
        if puuid = ''A'' then Inr [''M123'', ''M7''] else Inr [''M123''])"
  "match_by_id table_env = (\<lambda>t reg mid. Inr two_players)"
  "versions_for_region table_env = (\<lambda>t reg. Inr ''14.1.1'')"
  "champions table_env = (\<lambda>t version. Inr [\<lparr>c_key = 1, c_name = ''Annie''\<rparr>])"
  "time_time table_env = (\<lambda>t. 1000 + of_nat t)"
  "read_csv_matches table_env = (\<lambda>t path. Inr small_table)"
  "read_csv_directory table_env = (\<lambda>t path. Inr small_directory)"
  "to_csv table_env = (\<lambda>t path. None)"
  "shuffle table_env = (\<lambda>slot_no len. [0..<len])"
  by (simp_all add: table_env_def overlap_env_def ladder_env_sel quiet_env_sel)

lemma small_directory_entries:
  "entries small_directory =
     [\<lparr>d_name = ''<U>'', d_puuid = ''0'', d_summonerId = ''0'', d_key = 0\<rparr>,
      \<lparr>d_name = ''<U>'', d_puuid = ''pu-<U>'', d_summonerId = ''id-<U>'', d_key = 1\<rparr>,
      \<lparr>d_name = ''b'', d_puuid = ''pu-b'', d_summonerId = ''id-b'', d_key = 2\<rparr>,
      \<lparr>d_name = ''c'', d_puuid = ''pu-c'', d_summonerId = ''id-c'', d_key = 3\<rparr>,
      \<lparr>d_name = ''d'', d_puuid = ''pu-d'', d_summonerId = ''id-d'', d_key = 4\<rparr>,
      \<lparr>d_name = ''e'', d_puuid = ''pu-e'', d_summonerId = ''id-e'', d_key = 5\<rparr>,
      \<lparr>d_name = ''f'', d_puuid = ''pu-f'', d_summonerId = ''id-f'', d_key = 6\<rparr>,
      \<lparr>d_name = ''g'', d_puuid = ''pu-g'', d_summonerId = ''id-g'', d_key = 7\<rparr>,
      \<lparr>d_name = ''h'', d_puuid = ''pu-h'', d_summonerId = ''id-h'', d_key = 8\<rparr>,
      \<lparr>d_name = ''i'', d_puuid = ''pu-i'', d_summonerId = ''id-i'', d_key = 9\<rparr>,
      \<lparr>d_name = ''j'', d_puuid = ''pu-j'', d_summonerId = ''id-j'', d_key = 10\<rparr>]"
  "keyed small_directory"
  by (simp_all add: small_directory_def make_directory_def unknown_row_def enumerate_eq_zip upt_rec)

lemma slot_numbers:
  "[Suc 0..<11] = [1, 2, 3, 4, 5, 6, 7, 8, 9, 10]"
  "[2..<11] = [2, 3, 4, 5, 6, 7, 8, 9, 10]"
  by (simp_all add: upt_rec)



lemma disk_full_env_sel:
  "platform_data disk_full_env = (\<lambda>t reg. None)"
  "challenger_by_queue disk_full_env = (\<lambda>t reg.
        Inr [\<lparr>le_summonerId = ''a'', le_summonerName = ''Ann'', le_leaguePoints = 50\<rparr>,
             \<lparr>le_summonerId = ''b'', le_summonerName = ''Bob'', le_leaguePoints = 200\<rparr>,
             \<lparr>le_summonerId = ''c'', le_summonerName = ''Cy'', le_leaguePoints = 100\<rparr>])"
  "grandmaster_by_queue disk_full_env = (\<lambda>t reg. Inr [])"
  "masters_by_queue disk_full_env = (\<lambda>t reg. Inr [])"
  "summoner_by_id disk_full_env =
     (\<lambda>t reg sid. Inr [''puuid'' \<mapsto> ''pu-'' @ sid, ''accountId'' \<mapsto> ''acc-'' @ sid])"
  "matchlist_by_puuid disk_full_env = (\<lambda>t reg puuid start_time end_time.
        if puuid = ''A'' then Inr [''M123'', ''M7''] else Inr [''M123''])"
  "match_by_id disk_full_env = (\<lambda>t reg mid. Inr two_players)"
  "versions_for_region disk_full_env = (\<lambda>t reg. Inr ''14.1.1'')"
  "champions disk_full_env = (\<lambda>t version. Inr [\<lparr>c_key = 1, c_name = ''Annie''\<rparr>])"
  "time_time disk_full_env = (\<lambda>t. 1000 + of_nat t)"
  "read_csv_matches disk_full_env = (\<lambda>t path. Inr small_table)"
  "read_csv_directory disk_full_env = (\<lambda>t path. Inr small_directory)"
  "to_csv disk_full_env = (\<lambda>t path. Some (OSError ''No space left on device''))"
  "shuffle disk_full_env = (\<lambda>slot_no len. [0..<len])"
  by (simp_all add: disk_full_env_def table_env_sel)

text \<open>
  Claim C7. What a failed write does, for the four functions that compute a table and take
  a save path. Each of them computes its table before it writes, so the run with a save
  path is the run without one followed by the write.
  In \<open>load_players\<close> and \<open>load_matches\<close> the handler prints the exception and the
  message and goes on: the table is returned, whether the write fails or not.
  In \<open>process_player_data_from_matches\<close> and \<open>process_match_data\<close> the handler prints
  the message and re-raises (\<^verbatim>\<open>raise\<close>): when the write fails with \<open>e\<close> the call ends with
  \<open>e\<close> and no table is returned.
\<close>

theorem save_failure_outcomes:
  "(load_players E reg player_count None w = (Inr pdf, w1) \<longrightarrow>
      load_players E reg player_count (Some sp) w =
        (Inr pdf,
         w1 @ (case to_csv E (length w1) (sp @ pl_file_name pdf) of
                 None \<Rightarrow> [To_csv (sp @ pl_file_name pdf)]
               | Some e \<Rightarrow> [To_csv (sp @ pl_file_name pdf), Print [X e],
                            Print [S ''Failed to save player data to .csv file.'']]))) \<and>
   (load_matches E reg date players load_path None time_limit w = (Inr mdf, w2) \<longrightarrow>
      load_matches E reg date players load_path (Some sp) time_limit w =
        (Inr mdf,
         w2 @ (case to_csv E (length w2) (sp @ m_file_name mdf) of
                 None \<Rightarrow> [To_csv (sp @ m_file_name mdf)]
               | Some e \<Rightarrow> [To_csv (sp @ m_file_name mdf), Print [X e],
                            Print [S ''Failed to save match data to .csv file.'']]))) \<and>
   (process_player_data_from_matches E match_path None include_key w = (Inr (dir, None), w3) \<and>
    to_csv E (length w3)
      (sp @ replace_str ''raw_match_data'' ''processed_player_data'' (path_tail match_path)) =
      Some e3 \<longrightarrow>
      process_player_data_from_matches E match_path (Some sp) include_key w =
        (Inl e3,
         w3 @ [To_csv (sp @ replace_str ''raw_match_data'' ''processed_player_data''
                             (path_tail match_path)),
               Print [S ''Failed to save processed player data to .csv file.'']])) \<and>
   (process_match_data E match_path player_path None noise_rate w = (Inr (rows, None), w4) \<and>
    to_csv E (length w4)
      (sp @ replace_str ''raw_match_data'' ''processed_match_data'' (path_tail match_path)) =
      Some e4 \<longrightarrow>
      process_match_data E match_path player_path (Some sp) noise_rate w =
        (Inl e4,
         w4 @ [To_csv (sp @ replace_str ''raw_match_data'' ''processed_match_data''
                             (path_tail match_path)),
               Print [S ''Failed to save processed match data to .csv file.'']]))"
proof (intro conjI impI)
  assume "load_players E reg player_count None w = (Inr pdf, w1)"
  then show "load_players E reg player_count (Some sp) w =
        (Inr pdf,
         w1 @ (case to_csv E (length w1) (sp @ pl_file_name pdf) of
                 None \<Rightarrow> [To_csv (sp @ pl_file_name pdf)]
               | Some e \<Rightarrow> [To_csv (sp @ pl_file_name pdf), Print [X e],
                            Print [S ''Failed to save player data to .csv file.'']]))"
    by (rule load_players_save)
next
  assume "load_matches E reg date players load_path None time_limit w = (Inr mdf, w2)"
  then show "load_matches E reg date players load_path (Some sp) time_limit w =
        (Inr mdf,
         w2 @ (case to_csv E (length w2) (sp @ m_file_name mdf) of
                 None \<Rightarrow> [To_csv (sp @ m_file_name mdf)]
               | Some e \<Rightarrow> [To_csv (sp @ m_file_name mdf), Print [X e],
                            Print [S ''Failed to save match data to .csv file.'']]))"
    by (rule load_matches_save)
next
  assume "process_player_data_from_matches E match_path None include_key w = (Inr (dir, None), w3) \<and>
    to_csv E (length w3)
      (sp @ replace_str ''raw_match_data'' ''processed_player_data'' (path_tail match_path)) =
      Some e3"
  then show "process_player_data_from_matches E match_path (Some sp) include_key w =
        (Inl e3,
         w3 @ [To_csv (sp @ replace_str ''raw_match_data'' ''processed_player_data''
                             (path_tail match_path)),
               Print [S ''Failed to save processed player data to .csv file.'']])"
    using process_player_data_save by blast
next
  assume "process_match_data E match_path player_path None noise_rate w = (Inr (rows, None), w4) \<and>
    to_csv E (length w4)
      (sp @ replace_str ''raw_match_data'' ''processed_match_data'' (path_tail match_path)) =
      Some e4"
  then show "process_match_data E match_path player_path (Some sp) noise_rate w =
        (Inl e4,
         w4 @ [To_csv (sp @ replace_str ''raw_match_data'' ''processed_match_data''
                             (path_tail match_path)),
               Print [S ''Failed to save processed match data to .csv file.'']])"
    using process_match_data_save by blast
qed

lemma file_names:
  "replace_str ''raw_match_data'' ''processed_player_data'' (path_tail ''data/raw_match_data_na1.csv'') =
     ''processed_player_data_na1.csv''"
  "replace_str ''raw_match_data'' ''processed_match_data'' (path_tail ''data/raw_match_data_na1.csv'') =
     ''processed_match_data_na1.csv''"
  by (simp_all add: path_tail_def)

text \<open>
  The claim says that \<open>process_player_data_from_matches\<close> still returns the directory when
  the write fails. On a full disk it prints the message and ends with the \<^verbatim>\<open>OSError\<close> of
  the write.
\<close>

theorem processed_player_save_failure_is_fatal:
  "process_player_data_from_matches disk_full_env ''data/raw_match_data_na1.csv'' (Some ''out/'')
     True [] =
     (Inl (OSError ''No space left on device''),
      [Read_csv ''data/raw_match_data_na1.csv'', To_csv ''out/processed_player_data_na1.csv'',
       Print [S ''Failed to save processed player data to .csv file.'']])"
  by (simp add: process_player_data_from_matches_def disk_full_env_sel small_table_def
      has_slot_def slot_names_def drop_duplicates_def mk_slot_def unknown_row_def slot_numbers
      file_names del: upt_rec_numeral)

text \<open>
  The four functions on a full disk: the two loaders return their tables after the failed
  write, the two processing functions end with the \<^verbatim>\<open>OSError\<close>.
\<close>

theorem save_failure_outcomes_witness:
  "load_players disk_full_env ''na1'' 3 (Some ''out/'') [] =
     (Inr \<lparr>pl_rows =
         [\<lparr>pl_puuid = ''pu-b'', pl_accountId = ''acc-b'',
             pl_summonerId = ''b'', pl_summonerName = ''Bob'',
             pl_leaguePoints = 200\<rparr>,
          \<lparr>pl_puuid = ''pu-c'', pl_accountId = ''acc-c'',
             pl_summonerId = ''c'', pl_summonerName = ''Cy'',
             pl_leaguePoints = 100\<rparr>,
          \<lparr>pl_puuid = ''pu-a'', pl_accountId = ''acc-a'',
             pl_summonerId = ''a'', pl_summonerName = ''Ann'',
             pl_leaguePoints = 50\<rparr>],
         pl_file_name = ''raw_player_data_na1_1007.csv''\<rparr>,
      [Platform_data ''na1'', Challenger_by_queue ''na1'',
       Grandmaster_by_queue ''na1'', Masters_by_queue ''na1'',
       Summoner_by_id ''na1'' ''a'', Summoner_by_id ''na1'' ''b'',
       Summoner_by_id ''na1'' ''c'', Time_time,
       To_csv ''out/raw_player_data_na1_1007.csv'',
       Print [X (OSError ''No space left on device'')],
       Print [S ''Failed to save player data to .csv file.'']]) \<and>
   load_matches disk_full_env ''na1'' 0 (Some [''puuid'' \<mapsto> [''A'', ''B'']]) None (Some ''out/'')
       (Some 1) [] =
     (Inr \<lparr>m_rows = [\<lparr>match_id = ''M123'', slots = serialise two_players\<rparr>,
                      \<lparr>match_id = ''M7'', slots = serialise two_players\<rparr>],
           m_file_name = ''raw_match_data_na1_0_1001.csv''\<rparr>,
      [Time_time, Platform_data ''na1'', Time_time,
       Matchlist_by_puuid ''na1'' ''A'', Match_by_id ''na1'' ''M123'' True,
       Match_by_id ''na1'' ''M7'' True, Time_time,
       Matchlist_by_puuid ''na1'' ''B'', Time_time,
       To_csv ''out/raw_match_data_na1_0_1001.csv'',
       Print [X (OSError ''No space left on device'')],
       Print [S ''Failed to save match data to .csv file.'']]) \<and>
   process_player_data_from_matches disk_full_env ''data/raw_match_data_na1.csv'' None True [] =
     (Inr (small_directory, None), [Read_csv ''data/raw_match_data_na1.csv'']) \<and>
   process_player_data_from_matches disk_full_env ''data/raw_match_data_na1.csv'' (Some ''out/'')
       False [] =
     (Inl (OSError ''No space left on device''),
      [Read_csv ''data/raw_match_data_na1.csv'', To_csv ''out/processed_player_data_na1.csv'',
       Print [S ''Failed to save processed player data to .csv file.'']]) \<and>
   process_match_data disk_full_env ''data/raw_match_data_na1.csv''
       ''data/processed_player_data_na1.csv'' None 0 [] =
     (Inr (small_result, None),
      [Read_csv ''data/raw_match_data_na1.csv'', Read_csv ''data/processed_player_data_na1.csv'',
       Versions_for_region ''na1'', Champions]) \<and>
   process_match_data disk_full_env ''data/raw_match_data_na1.csv''
       ''data/processed_player_data_na1.csv'' (Some ''out/'') 0 [] =
     (Inl (OSError ''No space left on device''),
      [Read_csv ''data/raw_match_data_na1.csv'', Read_csv ''data/processed_player_data_na1.csv'',
       Versions_for_region ''na1'', Champions, To_csv ''out/processed_match_data_na1.csv'',
       Print [S ''Failed to save processed match data to .csv file.'']])"
proof -
  have p: "load_players disk_full_env ''na1'' 3 None [] =
     (Inr \<lparr>pl_rows =
         [\<lparr>pl_puuid = ''pu-b'', pl_accountId = ''acc-b'',
             pl_summonerId = ''b'', pl_summonerName = ''Bob'',
             pl_leaguePoints = 200\<rparr>,
          \<lparr>pl_puuid = ''pu-c'', pl_accountId = ''acc-c'',
             pl_summonerId = ''c'', pl_summonerName = ''Cy'',
             pl_leaguePoints = 100\<rparr>,
          \<lparr>pl_puuid = ''pu-a'', pl_accountId = ''acc-a'',
             pl_summonerId = ''a'', pl_summonerName = ''Ann'',
             pl_leaguePoints = 50\<rparr>],
         pl_file_name = ''raw_player_data_na1_1007.csv''\<rparr>,
      [Platform_data ''na1'', Challenger_by_queue ''na1'',
       Grandmaster_by_queue ''na1'', Masters_by_queue ''na1'',
       Summoner_by_id ''na1'' ''a'', Summoner_by_id ''na1'' ''b'',
       Summoner_by_id ''na1'' ''c'', Time_time])"
    by (simp add: load_players_def disk_full_env_sel eval_defs upto_rec1)
  have m: "load_matches disk_full_env ''na1'' 0 (Some [''puuid'' \<mapsto> [''A'', ''B'']]) None None
       (Some 1) [] =
     (Inr \<lparr>m_rows = [\<lparr>match_id = ''M123'', slots = serialise two_players\<rparr>,
                      \<lparr>match_id = ''M7'', slots = serialise two_players\<rparr>],
           m_file_name = ''raw_match_data_na1_0_1001.csv''\<rparr>,
      [Time_time, Platform_data ''na1'', Time_time,
       Matchlist_by_puuid ''na1'' ''A'', Match_by_id ''na1'' ''M123'' True,
       Match_by_id ''na1'' ''M7'' True, Time_time,
       Matchlist_by_puuid ''na1'' ''B'', Time_time])"
    by (simp add: crawl_eval_defs disk_full_env_sel eval_defs)
  have d: "process_player_data_from_matches disk_full_env ''data/raw_match_data_na1.csv'' None
       False [] = (Inr (make_directory False (unknown_row #
        map (\<lambda>nm. (nm, ''pu-'' @ nm, ''id-'' @ nm))
          [''<U>'', ''b'', ''c'', ''d'', ''e'', ''f'', ''g'', ''h'', ''i'', ''j'']), None),
        [Read_csv ''data/raw_match_data_na1.csv''])"
    by (simp add: process_player_data_from_matches_def disk_full_env_sel small_table_def
      has_slot_def slot_names_def drop_duplicates_def mk_slot_def
      unknown_row_def slot_numbers del: upt_rec_numeral)
  have d': "process_player_data_from_matches disk_full_env ''data/raw_match_data_na1.csv'' None
       True [] = (Inr (small_directory, None), [Read_csv ''data/raw_match_data_na1.csv''])"
    by (simp add: process_player_data_from_matches_def disk_full_env_sel small_table_def
      small_directory_def has_slot_def slot_names_def drop_duplicates_def mk_slot_def
      unknown_row_def slot_numbers del: upt_rec_numeral)
  have r: "process_match_data disk_full_env ''data/raw_match_data_na1.csv''
       ''data/processed_player_data_na1.csv'' None 0 [] =
     (Inr (small_result, None),
      [Read_csv ''data/raw_match_data_na1.csv'', Read_csv ''data/processed_player_data_na1.csv'',
       Versions_for_region ''na1'', Champions])"
    by (simp add: process_match_data_def read_tables_def load_champions_def disk_full_env_sel
      small_directory_entries small_table_def start_rows_def mk_slot_def add_noise_zero
      join_slot_def join_row_def set_key_def set_champName_def champ_dict_of_def
      small_result_def resolved_slot_def Let_def slot_numbers del: upt_rec_numeral)
  from save_failure_outcomes
    [of disk_full_env "''na1''" 3 "[]" _ _ "''out/''" 0 "Some [''puuid'' \<mapsto> [''A'', ''B'']]"
        None "Some 1" _ _ "''data/raw_match_data_na1.csv''" False _ _
        "OSError ''No space left on device''" "''data/processed_player_data_na1.csv''" 0
        small_result _ "OSError ''No space left on device''"]
    p m d d' r
  show ?thesis by (simp add: disk_full_env_sel file_names)
qed






end
